theory Spec2Isabelle
  imports Complex_Main "HOL-Library.Word"
begin

unbundle bit_operations_syntax

section \<open>The duplex audio session manager (src/services/liveClient.ts)\<close>

text \<open>
  The class \<^verbatim>\<open>LiveClient\<close> is embedded as a record of its private fields; each method
  and each callback becomes a function from the record to the updated record together
  with the list of effects it performs, in program order.

  Conventions of the embedding.
  \<^item> A JavaScript number is a \<open>real\<close>; rounding of IEEE doubles is not modelled. Where
    the source divides \<^verbatim>\<open>0 / 0\<close> (an empty buffer) the resulting \<^verbatim>\<open>NaN\<close> is written out.
  \<^item> A promise is represented by the way it settles. A callback registered with
    \<^verbatim>\<open>.then\<close> on a fulfilled promise runs; on a rejected promise it never runs. Its
    effect is recorded at the place where the callback is registered, so the order of
    the calls made on the session is the order of registration.
  \<^item> The identifier and the timestamp of a log entry (\<^verbatim>\<open>generateId()\<close>,
    \<^verbatim>\<open>new Date()\<close>) are left out of the logged event.
  \<^item> The functions imported from \<^verbatim>\<open>../utils/audioUtils\<close> are not part of the sources;
    they are parameters of the model (record \<open>audioUtils\<close>). So are the tool handler
    of the configuration and the answers of the platform (audio contexts, the capture
    device, the output clock, the remote service).
  \<^item> Each method runs to completion before the next event is handled: what another
    event could do while a method is suspended at an \<^verbatim>\<open>await\<close> is not modelled.
\<close>

subsection \<open>Values\<close>

type_synonym session = nat
type_synonym handle = nat
type_synonym byte = "8 word"
type_synonym MediaStream = "nat list"

datatype json =
    JNull
  | JBool bool
  | JNum int
  | JStr string
  | JObject "(string \<times> json) list"

text \<open>
  A thrown value or rejection reason (\<^verbatim>\<open>any\<close> in the source): an \<^verbatim>\<open>Error\<close> instance
  with its message, another value that is neither \<^verbatim>\<open>null\<close> nor \<^verbatim>\<open>undefined\<close> (with its
  \<^verbatim>\<open>message\<close> property, if it has one), or \<^verbatim>\<open>null\<close>/\<^verbatim>\<open>undefined\<close>.
\<close>

datatype thrown =
    JsError string
  | JsValue "string option"
  | JsNullish

datatype 'a promise = Fulfilled 'a | Rejected thrown

datatype 'a outcome = Returns 'a | Throws thrown

datatype jsnumber = NaN | Num real

datatype AudioContextState = Suspended | Running | Closed

record AudioContext =
  sampleRate :: nat
  ctx_state :: AudioContextState

datatype log_source = SYSTEM | USER | JARVIS

datatype log_type = Info | Success | Warning | Failure

text \<open>
  An inbound message, in the shape the class reads: an optional tool call with its list
  of invocations, and an optional server content with an optional model turn (a list of
  parts, each with optional inline data) and an optional interruption flag.
\<close>

record FunctionCall =
  call_id :: string
  call_name :: string
  call_args :: json

record FunctionResponse =
  resp_id :: string
  resp_name :: string
  response :: json

record Blob =
  data :: "string option"

record Part =
  inlineData :: "Blob option"

record Content =
  parts :: "Part list"

record ServerContent =
  modelTurn :: "Content option"
  interrupted :: "bool option"

record ToolCall =
  functionCalls :: "FunctionCall list"

record LiveServerMessage =
  toolCall :: "ToolCall option"
  serverContent :: "ServerContent option"

subsection \<open>Effects\<close>

text \<open>
  Every call that leaves the object: the four callbacks of the configuration, the tool
  handler, the console, the calls on the session, on playback sources and on the
  capture graph.
\<close>

datatype event =
    OnStatusChange string
  | OnAudioData jsnumber
  | OnLog log_source string log_type
  | OnError string
  | OnSystemAction string json
  | ConsoleError string
  | ConsoleDebug string
  | SendToolResponse session FunctionResponse
  | SendRealtimeInput session string string
  | SourceStart handle real real
  | SourceStop handle
  | GraphConnect
  | ProcessorDisconnect
  | SourceDisconnect
  | TrackStop nat
  | ContextClose nat
  | SessionClose session

datatype js_error = TypeError

subsection \<open>The object and its collaborators\<close>

record LiveClient =
  sessionPromise :: "session promise option"
  inputAudioContext :: "AudioContext option"
  outputAudioContext :: "AudioContext option"
  stream :: "MediaStream option"
  processor :: "nat option"
  source :: "MediaStream option"
  nextStartTime :: real
  activeSources :: "handle list"
  isMuted :: bool

text \<open>
  \<open>processor = Some n\<close> is a script processor of buffer size \<open>n\<close> with its
  \<^verbatim>\<open>onaudioprocess\<close> handler installed; \<open>source = Some st\<close> is the source node built over
  the stream \<open>st\<close>. \<open>activeSources\<close> is the JavaScript \<^verbatim>\<open>Set\<close> in insertion order.
\<close>

record config =
  voiceName :: string
  onSystemAction :: "string \<Rightarrow> json \<Rightarrow> json promise"

record audioUtils =
  base64ToUint8Array :: "string \<Rightarrow> byte list"
  decodeAudioData :: "byte list \<Rightarrow> real"
  float32ToPCM16 :: "real list \<Rightarrow> byte list"
  arrayBufferToBase64 :: "byte list \<Rightarrow> string"

text \<open>
  \<open>decodeAudioData u bytes\<close> is the \<^verbatim>\<open>duration\<close> of the decoded buffer, the only
  attribute of the buffer the class reads.
\<close>

text \<open>What the platform hands out during one call of \<^verbatim>\<open>handleMessage\<close>.\<close>

record playback_env =
  currentTime :: real
  createBufferSource :: handle

text \<open>What the platform answers during one call of \<^verbatim>\<open>connect\<close>.\<close>

record connect_env =
  newAudioContext :: "nat \<Rightarrow> AudioContext outcome"
  getUserMedia :: "MediaStream promise"
  liveConnect :: "session promise outcome"

definition initial :: LiveClient where
  "initial = \<lparr> sessionPromise = None, inputAudioContext = None, outputAudioContext = None,
     stream = None, processor = None, source = None, nextStartTime = 0,
     activeSources = [], isMuted = False \<rparr>"

subsection \<open>setMute\<close>

definition setMute :: "LiveClient \<Rightarrow> bool \<Rightarrow> LiveClient" where
  "setMute s muted = s\<lparr>isMuted := muted\<rparr>"

subsection \<open>The capture handler installed by startAudioStreaming\<close>

definition sumSquares :: "real list \<Rightarrow> real" where
  "sumSquares inputData = foldl (\<lambda>acc x. acc + x * x) 0 inputData"

definition captureRms :: "real list \<Rightarrow> real" where
  "captureRms inputData = sqrt (sumSquares inputData / real (length inputData))"

text \<open>
  For an empty buffer the source computes \<^verbatim>\<open>Math.sqrt(0 / 0)\<close>, that is \<^verbatim>\<open>NaN\<close>, and
  \<^verbatim>\<open>NaN > 0.01\<close> is false: nothing is reported.
\<close>

definition captureLevel :: "real list \<Rightarrow> event list" where
  "captureLevel inputData =
     (if inputData \<noteq> [] \<and> captureRms inputData > 0.01
      then [OnAudioData (Num (captureRms inputData * 5))] else [])"

definition sendFrame :: "audioUtils \<Rightarrow> LiveClient \<Rightarrow> real list \<Rightarrow> event list" where
  "sendFrame u s inputData =
     (let pcm16 = float32ToPCM16 u inputData;
          base64Data = arrayBufferToBase64 u pcm16
      in case sessionPromise s of
           None \<Rightarrow> []
         | Some (Rejected e) \<Rightarrow> []
         | Some (Fulfilled sess) \<Rightarrow>
             [SendRealtimeInput sess ''audio/pcm;rate=16000'' base64Data])"

definition onaudioprocess :: "audioUtils \<Rightarrow> LiveClient \<Rightarrow> real list \<Rightarrow> event list" where
  "onaudioprocess u s inputData =
     (if isMuted s then []
      else captureLevel inputData @ sendFrame u s inputData)"

text \<open>
  The platform delivers a captured buffer to the handler exactly while a processor with
  the handler installed exists.
\<close>

definition captureFrame :: "audioUtils \<Rightarrow> LiveClient \<Rightarrow> real list \<Rightarrow> event list" where
  "captureFrame u s inputData =
     (case processor s of None \<Rightarrow> [] | Some n \<Rightarrow> onaudioprocess u s inputData)"

subsection \<open>startAudioStreaming and the open callback\<close>

definition startAudioStreaming :: "LiveClient \<Rightarrow> LiveClient \<times> event list" where
  "startAudioStreaming s =
     (case inputAudioContext s of
        None \<Rightarrow> (s, [])
      | Some ctx \<Rightarrow>
          (case stream s of
             None \<Rightarrow> (s, [])
           | Some st \<Rightarrow>
               (s\<lparr>source := Some st, processor := Some 4096\<rparr>, [GraphConnect, GraphConnect])))"

definition handleOpen :: "LiveClient \<Rightarrow> LiveClient \<times> event list" where
  "handleOpen s =
     (let (s', evs) = startAudioStreaming s
      in (s', [OnStatusChange ''CONNECTED'',
               OnLog SYSTEM ''J.A.R.V.I.S. Protocol Online'' Success] @ evs))"

subsection \<open>connect\<close>

fun startsWith :: "string \<Rightarrow> string \<Rightarrow> bool" where
  "startsWith s [] = True"
| "startsWith [] (c # cs) = False"
| "startsWith (x # xs) (c # cs) = (x = c \<and> startsWith xs cs)"

fun str_includes :: "string \<Rightarrow> string \<Rightarrow> bool" where
  "str_includes [] t = (t = [])"
| "str_includes (x # xs) t = (startsWith (x # xs) t \<or> str_includes xs t)"

text \<open>The three \<^verbatim>\<open>if\<close> statements of the catch block run one after the other.\<close>

definition friendlyMessage :: "string \<Rightarrow> string" where
  "friendlyMessage m =
     (let m1 = (if str_includes m ''403''
                then ''ACCESS DENIED: Invalid API Key or Permissions.'' else m);
          m2 = (if str_includes m1 ''503''
                then ''SERVICE UNAVAILABLE: Server Overload.'' else m1);
          m3 = (if str_includes m2 ''Failed to fetch''
                then ''NETWORK FAILURE: Unable to reach command servers.'' else m2)
      in m3)"

definition connectErrorMessage :: "thrown \<Rightarrow> string" where
  "connectErrorMessage e =
     (case e of
        JsError m \<Rightarrow> friendlyMessage m
      | JsValue mo \<Rightarrow> ''Unknown Connection Protocol Error''
      | JsNullish \<Rightarrow> ''Unknown Connection Protocol Error'')"

definition connectFailed :: "thrown \<Rightarrow> event list" where
  "connectFailed e =
     [ConsoleError ''Connection failed:'',
      OnStatusChange ''ERROR'',
      OnError (connectErrorMessage e),
      OnLog SYSTEM (''Connection Aborted: '' @ connectErrorMessage e) Failure]"

text \<open>
  \<^verbatim>\<open>getUserMedia\<close> is awaited inside the \<^verbatim>\<open>try\<close> block, so its rejection reaches the
  catch block. The promise returned by \<^verbatim>\<open>live.connect\<close> is stored without being
  awaited: only a synchronous throw of that call reaches the catch block.
\<close>

definition connect :: "connect_env \<Rightarrow> LiveClient \<Rightarrow> LiveClient \<times> event list" where
  "connect env s =
     (case newAudioContext env 16000 of
        Throws e \<Rightarrow> (s, OnStatusChange ''CONNECTING'' # connectFailed e)
      | Returns ic \<Rightarrow>
          (let s1 = s\<lparr>inputAudioContext := Some ic\<rparr> in
           case newAudioContext env 24000 of
             Throws e \<Rightarrow> (s1, OnStatusChange ''CONNECTING'' # connectFailed e)
           | Returns oc \<Rightarrow>
               (let s2 = s1\<lparr>outputAudioContext := Some oc\<rparr> in
                case getUserMedia env of
                  Rejected e \<Rightarrow> (s2, OnStatusChange ''CONNECTING'' # connectFailed e)
                | Fulfilled st \<Rightarrow>
                    (let s3 = s2\<lparr>stream := Some st\<rparr> in
                     case liveConnect env of
                       Throws e \<Rightarrow> (s3, OnStatusChange ''CONNECTING'' # connectFailed e)
                     | Returns p \<Rightarrow>
                         (s3\<lparr>sessionPromise := Some p\<rparr>, [OnStatusChange ''CONNECTING''])))))"

subsection \<open>handleMessage: tool calls\<close>

text \<open>
  \<^verbatim>\<open>err.message || "Unknown tool failure"\<close>: reading a property of \<^verbatim>\<open>null\<close> or
  \<^verbatim>\<open>undefined\<close> raises a \<^verbatim>\<open>TypeError\<close> inside the catch block; a missing or empty
  message gives the fallback text.
\<close>

definition errStr :: "thrown \<Rightarrow> js_error + string" where
  "errStr err =
     (case err of
        JsNullish \<Rightarrow> Inl TypeError
      | JsError m \<Rightarrow> Inr (if m \<noteq> [] then m else ''Unknown tool failure'')
      | JsValue mo \<Rightarrow>
          Inr (case mo of
                 None \<Rightarrow> ''Unknown tool failure''
               | Some m \<Rightarrow> if m \<noteq> [] then m else ''Unknown tool failure''))"

definition failurePayload :: "string \<Rightarrow> json" where
  "failurePayload m = JObject [(''error'', JStr m), (''status'', JStr ''FAILED'')]"

text \<open>\<^verbatim>\<open>this.sessionPromise?.then(session => session.sendToolResponse(...))\<close>\<close>

definition sendToolResponse :: "LiveClient \<Rightarrow> FunctionCall \<Rightarrow> json \<Rightarrow> event list" where
  "sendToolResponse s fc result =
     (case sessionPromise s of
        None \<Rightarrow> []
      | Some (Rejected e) \<Rightarrow> []
      | Some (Fulfilled sess) \<Rightarrow>
          [SendToolResponse sess
             \<lparr>resp_id = call_id fc, resp_name = call_name fc,
              response = JObject [(''result'', result)]\<rparr>])"

text \<open>One iteration of the loop over \<^verbatim>\<open>message.toolCall.functionCalls\<close>.\<close>

definition dispatch :: "config \<Rightarrow> LiveClient \<Rightarrow> FunctionCall \<Rightarrow> event list \<times> js_error option" where
  "dispatch cfg s fc =
     (let announce = [OnLog JARVIS (''Executing protocol: '' @ call_name fc) Info,
                      OnSystemAction (call_name fc) (call_args fc)]
      in case onSystemAction cfg (call_name fc) (call_args fc) of
           Fulfilled result \<Rightarrow> (announce @ sendToolResponse s fc result, None)
         | Rejected err \<Rightarrow>
             (case errStr err of
                Inl te \<Rightarrow> (announce, Some te)
              | Inr m \<Rightarrow>
                  (announce @
                   [ConsoleError (''Tool execution failed for '' @ call_name fc),
                    OnLog SYSTEM (''CRITICAL: Tool Failure ('' @ call_name fc @ '') - '' @ m)
                      Failure] @
                   sendToolResponse s fc (failurePayload m), None)))"

fun dispatchAll :: "config \<Rightarrow> LiveClient \<Rightarrow> FunctionCall list \<Rightarrow> event list \<times> js_error option" where
  "dispatchAll cfg s [] = ([], None)"
| "dispatchAll cfg s (fc # fcs) =
     (case dispatch cfg s fc of
        (evs, Some te) \<Rightarrow> (evs, Some te)
      | (evs, None) \<Rightarrow>
          (case dispatchAll cfg s fcs of (evs', r) \<Rightarrow> (evs @ evs', r)))"

definition handleToolCalls :: "config \<Rightarrow> LiveClient \<Rightarrow> LiveServerMessage \<Rightarrow> event list \<times> js_error option" where
  "handleToolCalls cfg s message =
     (case toolCall message of
        None \<Rightarrow> ([], None)
      | Some tc \<Rightarrow> dispatchAll cfg s (functionCalls tc))"

subsection \<open>handleMessage: audio output\<close>

text \<open>\<^verbatim>\<open>message.serverContent?.modelTurn?.parts[0]?.inlineData?.data\<close>\<close>

definition base64Audio :: "LiveServerMessage \<Rightarrow> string option" where
  "base64Audio message =
     (case serverContent message of
        None \<Rightarrow> None
      | Some sc \<Rightarrow>
          (case modelTurn sc of
             None \<Rightarrow> None
           | Some mt \<Rightarrow>
               (case parts mt of
                  [] \<Rightarrow> None
                | p # rest \<Rightarrow>
                    (case inlineData p of None \<Rightarrow> None | Some b \<Rightarrow> data b))))"

text \<open>
  The loop \<^verbatim>\<open>for (i = 0; i < length; i += 2)\<close> over byte pairs. When the length is odd the
  last read \<^verbatim>\<open>audioBytes[i+1]\<close> is \<^verbatim>\<open>undefined\<close>, and \<^verbatim>\<open>undefined << 8\<close> is \<open>0\<close>.
\<close>

fun pcmSquares :: "real \<Rightarrow> byte list \<Rightarrow> real" where
  "pcmSquares acc [] = acc"
| "pcmSquares acc [lo] =
     (let val = real_of_int (uint lo OR 0) / 32768 in acc + val * val)"
| "pcmSquares acc (lo # hi # rest) =
     (let val = real_of_int (uint lo OR push_bit 8 (uint hi)) / 32768
      in pcmSquares (acc + val * val) rest)"

definition playbackLevel :: "byte list \<Rightarrow> jsnumber" where
  "playbackLevel audioBytes =
     (if audioBytes = [] then NaN
      else Num (min 1 (sqrt (pcmSquares 0 audioBytes / (real (length audioBytes) / 2)) * 5)))"

definition setAdd :: "handle \<Rightarrow> handle list \<Rightarrow> handle list" where
  "setAdd h hs = (if h \<in> set hs then hs else hs @ [h])"

definition setDelete :: "handle \<Rightarrow> handle list \<Rightarrow> handle list" where
  "setDelete h hs = filter (\<lambda>x. x \<noteq> h) hs"

definition playAudio ::
  "audioUtils \<Rightarrow> playback_env \<Rightarrow> LiveClient \<Rightarrow> LiveServerMessage \<Rightarrow> LiveClient \<times> event list" where
  "playAudio u env s message =
     (case base64Audio message of
        None \<Rightarrow> (s, [])
      | Some b64 \<Rightarrow>
          (if b64 = [] then (s, [])
           else case outputAudioContext s of
                  None \<Rightarrow> (s, [])
                | Some ctx \<Rightarrow>
                    (let audioBytes = base64ToUint8Array u b64;
                         startAt = max (nextStartTime s) (currentTime env);
                         duration = decodeAudioData u audioBytes;
                         src = createBufferSource env
                     in (s\<lparr>nextStartTime := startAt + duration,
                            activeSources := setAdd src (activeSources s)\<rparr>,
                         [OnAudioData (playbackLevel audioBytes),
                          SourceStart src startAt duration]))))"

text \<open>\<^verbatim>\<open>source.onended = () => this.activeSources.delete(source)\<close>\<close>

definition onended :: "LiveClient \<Rightarrow> handle \<Rightarrow> LiveClient" where
  "onended s h = s\<lparr>activeSources := setDelete h (activeSources s)\<rparr>"

subsection \<open>handleMessage: interruption\<close>

definition interruptedFlag :: "LiveServerMessage \<Rightarrow> bool" where
  "interruptedFlag message =
     (case serverContent message of
        None \<Rightarrow> False
      | Some sc \<Rightarrow> (case interrupted sc of None \<Rightarrow> False | Some b \<Rightarrow> b))"

definition handleInterruption :: "LiveClient \<Rightarrow> LiveServerMessage \<Rightarrow> LiveClient \<times> event list" where
  "handleInterruption s message =
     (if interruptedFlag message
      then (s\<lparr>activeSources := [], nextStartTime := 0\<rparr>,
            map SourceStop (activeSources s) @ [OnLog SYSTEM ''Output Interrupted'' Warning])
      else (s, []))"

subsection \<open>handleMessage\<close>

text \<open>
  The three parts run in the order of the source. A \<^verbatim>\<open>TypeError\<close> raised in the tool
  loop makes the asynchronous method reject: the rest of the message is not handled.
\<close>

definition handleMessage ::
  "config \<Rightarrow> audioUtils \<Rightarrow> playback_env \<Rightarrow> LiveClient \<Rightarrow> LiveServerMessage
    \<Rightarrow> LiveClient \<times> event list \<times> js_error option" where
  "handleMessage cfg u env s message =
     (case handleToolCalls cfg s message of
        (evs1, Some te) \<Rightarrow> (s, evs1, Some te)
      | (evs1, None) \<Rightarrow>
          (case playAudio u env s message of
             (s2, evs2) \<Rightarrow>
               (case handleInterruption s2 message of
                  (s3, evs3) \<Rightarrow> (s3, evs1 @ evs2 @ evs3, None))))"

subsection \<open>The error and close callbacks\<close>

definition handleError :: "LiveClient \<Rightarrow> LiveClient \<times> event list" where
  "handleError s =
     (s, [ConsoleError ''Gemini Error'',
          OnError ''WebSocket communication interrupted.'',
          OnLog SYSTEM (''Protocol Error Detected: '' @ ''WebSocket communication interrupted.'')
            Failure])"

definition handleClose :: "LiveClient \<Rightarrow> LiveClient \<times> event list" where
  "handleClose s =
     (s, [OnStatusChange ''DISCONNECTED'',
          OnLog SYSTEM ''J.A.R.V.I.S. Protocol Offline'' Warning])"

subsection \<open>disconnect\<close>

definition releaseProcessor :: "LiveClient \<Rightarrow> LiveClient \<times> event list" where
  "releaseProcessor s =
     (case processor s of
        None \<Rightarrow> (s, [])
      | Some n \<Rightarrow> (s\<lparr>processor := None\<rparr>, [ProcessorDisconnect]))"

definition releaseSource :: "LiveClient \<Rightarrow> LiveClient \<times> event list" where
  "releaseSource s =
     (case source s of
        None \<Rightarrow> (s, [])
      | Some n \<Rightarrow> (s\<lparr>source := None\<rparr>, [SourceDisconnect]))"

definition releaseStream :: "LiveClient \<Rightarrow> LiveClient \<times> event list" where
  "releaseStream s =
     (case stream s of
        None \<Rightarrow> (s, [])
      | Some st \<Rightarrow> (s\<lparr>stream := None\<rparr>, map TrackStop st))"

text \<open>
  \<^verbatim>\<open>if (ctx && ctx.state !== 'closed') { await ctx.close(); this.ctx = null; }\<close>:
  a context that is already closed stays in its field.
\<close>

definition closeInput :: "LiveClient \<Rightarrow> LiveClient \<times> event list" where
  "closeInput s =
     (case inputAudioContext s of
        None \<Rightarrow> (s, [])
      | Some ctx \<Rightarrow>
          (if ctx_state ctx = Closed then (s, [])
           else (s\<lparr>inputAudioContext := None\<rparr>, [ContextClose (sampleRate ctx)])))"

definition closeOutput :: "LiveClient \<Rightarrow> LiveClient \<times> event list" where
  "closeOutput s =
     (case outputAudioContext s of
        None \<Rightarrow> (s, [])
      | Some ctx \<Rightarrow>
          (if ctx_state ctx = Closed then (s, [])
           else (s\<lparr>outputAudioContext := None\<rparr>, [ContextClose (sampleRate ctx)])))"

definition stopSources :: "LiveClient \<Rightarrow> LiveClient \<times> event list" where
  "stopSources s = (s\<lparr>activeSources := []\<rparr>, map SourceStop (activeSources s))"

text \<open>
  \<^verbatim>\<open>try { const session = await this.sessionPromise; session.close(); } catch (e) { console.debug(...) }\<close>
  followed by \<^verbatim>\<open>this.sessionPromise = null\<close>.
\<close>

definition closeSession :: "LiveClient \<Rightarrow> LiveClient \<times> event list" where
  "closeSession s =
     (case sessionPromise s of
        None \<Rightarrow> (s, [])
      | Some (Fulfilled sess) \<Rightarrow> (s\<lparr>sessionPromise := None\<rparr>, [SessionClose sess])
      | Some (Rejected e) \<Rightarrow>
          (s\<lparr>sessionPromise := None\<rparr>, [ConsoleDebug ''Session close error'']))"

definition andThen ::
  "(LiveClient \<Rightarrow> LiveClient \<times> event list) \<Rightarrow> (LiveClient \<Rightarrow> LiveClient \<times> event list)
    \<Rightarrow> LiveClient \<Rightarrow> LiveClient \<times> event list" where
  "andThen f g s = (case f s of (s1, e1) \<Rightarrow> (case g s1 of (s2, e2) \<Rightarrow> (s2, e1 @ e2)))"

definition disconnect :: "LiveClient \<Rightarrow> LiveClient \<times> event list" where
  "disconnect =
     andThen releaseProcessor
       (andThen releaseSource
         (andThen releaseStream
           (andThen closeInput
             (andThen closeOutput
               (andThen stopSources closeSession)))))"

subsection \<open>A session as a sequence of inbound events\<close>

text \<open>
  Between two messages any playback source may end naturally; its
  \<^verbatim>\<open>onended\<close> callback removes it from the set of active sources.
\<close>

datatype inbound =
    Message playback_env LiveServerMessage
  | Ended handle

fun react :: "config \<Rightarrow> audioUtils \<Rightarrow> LiveClient \<Rightarrow> inbound \<Rightarrow> LiveClient \<times> event list" where
  "react cfg u s (Message env m) =
     (case handleMessage cfg u env s m of (s', evs, r) \<Rightarrow> (s', evs))"
| "react cfg u s (Ended h) = (onended s h, [])"

fun run :: "config \<Rightarrow> audioUtils \<Rightarrow> LiveClient \<Rightarrow> inbound list \<Rightarrow> LiveClient \<times> event list" where
  "run cfg u s [] = (s, [])"
| "run cfg u s (x # xs) =
     (case react cfg u s x of
        (s', evs) \<Rightarrow> (case run cfg u s' xs of (s'', evs') \<Rightarrow> (s'', evs @ evs')))"

fun interrupts :: "inbound \<Rightarrow> bool" where
  "interrupts (Message env m) = interruptedFlag m"
| "interrupts (Ended h) = False"

subsection \<open>Reading a trace\<close>

text \<open>The playback sources started, as pairs of start time and duration.\<close>

fun scheduled :: "event list \<Rightarrow> (real \<times> real) list" where
  "scheduled [] = []"
| "scheduled (SourceStart h t d # evs) = (t, d) # scheduled evs"
| "scheduled (e # evs) = scheduled evs"

fun levels :: "event list \<Rightarrow> jsnumber list" where
  "levels [] = []"
| "levels (OnAudioData v # evs) = v # levels evs"
| "levels (e # evs) = levels evs"

fun stopped :: "event list \<Rightarrow> handle list" where
  "stopped [] = []"
| "stopped (SourceStop h # evs) = h # stopped evs"
| "stopped (e # evs) = stopped evs"

fun replies :: "event list \<Rightarrow> (session \<times> FunctionResponse) list" where
  "replies [] = []"
| "replies (SendToolResponse sess r # evs) = (sess, r) # replies evs"
| "replies (e # evs) = replies evs"

fun sentFrames :: "event list \<Rightarrow> (session \<times> string \<times> string) list" where
  "sentFrames [] = []"
| "sentFrames (SendRealtimeInput sess mime d # evs) = (sess, mime, d) # sentFrames evs"
| "sentFrames (e # evs) = sentFrames evs"

fun statusReports :: "event list \<Rightarrow> string list" where
  "statusReports [] = []"
| "statusReports (OnStatusChange st # evs) = st # statusReports evs"
| "statusReports (e # evs) = statusReports evs"

fun errorReports :: "event list \<Rightarrow> string list" where
  "errorReports [] = []"
| "errorReports (OnError m # evs) = m # errorReports evs"
| "errorReports (e # evs) = errorReports evs"

text \<open>
  The state of the session as the collaborator sees it: the last status passed to
  \<^verbatim>\<open>onStatusChange\<close>, or the given one when none was reported.
\<close>

definition lastStatus :: "string \<Rightarrow> event list \<Rightarrow> string" where
  "lastStatus st evs = last (st # statusReports evs)"

text \<open>
  A timeline without gaps in the wrong direction: every start is at or after the cursor,
  and the cursor moves to the end of the chunk just placed.
\<close>

fun gapless :: "real \<Rightarrow> (real \<times> real) list \<Rightarrow> bool" where
  "gapless cursor [] = True"
| "gapless cursor ((t, d) # rest) = (cursor \<le> t \<and> gapless (t + d) rest)"

fun overlapFree :: "(real \<times> real) list \<Rightarrow> bool" where
  "overlapFree [] = True"
| "overlapFree ((t, d) # rest) =
     (list_all (\<lambda>(t', d'). t + d \<le> t') rest \<and> overlapFree rest)"

definition contextReleased :: "AudioContext option \<Rightarrow> bool" where
  "contextReleased c = (case c of None \<Rightarrow> True | Some ctx \<Rightarrow> ctx_state ctx = Closed)"

definition released :: "LiveClient \<Rightarrow> bool" where
  "released s =
     (processor s = None \<and> source s = None \<and> stream s = None \<and>
      contextReleased (inputAudioContext s) \<and> contextReleased (outputAudioContext s) \<and>
      activeSources s = [] \<and> sessionPromise s = None)"

subsection \<open>Concrete collaborators used in the examples\<close>

definition exampleUtils :: audioUtils where
  "exampleUtils =
     \<lparr> base64ToUint8Array = map (\<lambda>c. of_char c),
       decodeAudioData = (\<lambda>bytes. real (length bytes) / 10),
       float32ToPCM16 = (\<lambda>frame. replicate (2 * length frame) 0),
       arrayBufferToBase64 = map (\<lambda>b. CHR ''A'') \<rparr>"

definition failingHandler :: config where
  "failingHandler =
     \<lparr> voiceName = ''Kore'',
       onSystemAction = (\<lambda>name args. Rejected (JsError ''boom'')) \<rparr>"

definition workingHandler :: config where
  "workingHandler =
     \<lparr> voiceName = ''Kore'',
       onSystemAction = (\<lambda>name args. Fulfilled (JObject [(''success'', JBool True)])) \<rparr>"

definition grantedEnv :: connect_env where
  "grantedEnv =
     \<lparr> newAudioContext = (\<lambda>rate. Returns \<lparr>sampleRate = rate, ctx_state = Running\<rparr>),
       getUserMedia = Fulfilled [0],
       liveConnect = Returns (Fulfilled 7) \<rparr>"

definition deniedEnv :: connect_env where
  "deniedEnv =
     \<lparr> newAudioContext = (\<lambda>rate. Returns \<lparr>sampleRate = rate, ctx_state = Running\<rparr>),
       getUserMedia = Rejected (JsError ''Permission denied''),
       liveConnect = Returns (Fulfilled 7) \<rparr>"

definition rejectedEnv :: connect_env where
  "rejectedEnv =
     \<lparr> newAudioContext = (\<lambda>rate. Returns \<lparr>sampleRate = rate, ctx_state = Running\<rparr>),
       getUserMedia = Fulfilled [0],
       liveConnect = Returns (Rejected (JsError ''403 Forbidden'')) \<rparr>"

definition audioMessage :: "string \<Rightarrow> LiveServerMessage" where
  "audioMessage b64 =
     \<lparr> toolCall = None,
       serverContent = Some \<lparr> modelTurn = Some \<lparr> parts = [\<lparr> inlineData = Some \<lparr> data = Some b64 \<rparr> \<rparr>] \<rparr>,
                              interrupted = None \<rparr> \<rparr>"

definition interruptionMessage :: LiveServerMessage where
  "interruptionMessage =
     \<lparr> toolCall = None,
       serverContent = Some \<lparr> modelTurn = None, interrupted = Some True \<rparr> \<rparr>"

definition toolMessage :: "FunctionCall list \<Rightarrow> LiveServerMessage" where
  "toolMessage fcs = \<lparr> toolCall = Some \<lparr> functionCalls = fcs \<rparr>, serverContent = None \<rparr>"

definition laterPartMessage :: "string \<Rightarrow> LiveServerMessage" where
  "laterPartMessage b64 =
     \<lparr> toolCall = None,
       serverContent = Some \<lparr> modelTurn = Some \<lparr> parts = [\<lparr> inlineData = None \<rparr>,
                                                        \<lparr> inlineData = Some \<lparr> data = Some b64 \<rparr> \<rparr>] \<rparr>,
                              interrupted = None \<rparr> \<rparr>"

definition connected :: LiveClient where
  "connected = fst (handleOpen (fst (connect grantedEnv initial)))"

text \<open>A reply carries its result under the single key \<^verbatim>\<open>result\<close>.\<close>

definition wellFormedReply :: "session \<times> FunctionResponse \<Rightarrow> bool" where
  "wellFormedReply p =
     (case response (snd p) of JObject [(k, x)] \<Rightarrow> k = ''result'' | _ \<Rightarrow> False)"

definition exampleCall :: FunctionCall where
  "exampleCall = \<lparr>call_id = ''1'', call_name = ''X'', call_args = JObject []\<rparr>"

definition secondCall :: FunctionCall where
  "secondCall = \<lparr>call_id = ''2'', call_name = ''scanSystem'', call_args = JObject [(''mode'', JStr ''FULL'')]\<rparr>"

text \<open>A handler that fails for the unknown action \<^verbatim>\<open>X\<close> and succeeds otherwise.\<close>

definition mixedHandler :: config where
  "mixedHandler =
     \<lparr> voiceName = ''Kore'',
       onSystemAction = (\<lambda>name args.
         if name = ''X'' then Rejected (JsError ''Unknown protocol action: X'')
         else Fulfilled (JObject [(''status'', JStr ''OPTIMAL'')])) \<rparr>"

text \<open>The cursor after a timeline has been placed.\<close>

fun cursorAfter :: "real \<Rightarrow> (real \<times> real) list \<Rightarrow> real" where
  "cursorAfter cursor [] = cursor"
| "cursorAfter cursor ((t, d) # rest) = cursorAfter (t + d) rest"

text \<open>Two chunks queued on the connected client: half a second, then three tenths.\<close>

definition firstChunk :: inbound where
  "firstChunk = Message \<lparr>currentTime = 2, createBufferSource = 1\<rparr> (audioMessage ''abcde'')"

definition twoQueued :: LiveClient where
  "twoQueued =
     fst (run workingHandler exampleUtils connected
       [firstChunk,
        Message \<lparr>currentTime = 21 / 10, createBufferSource = 2\<rparr> (audioMessage ''abc'')])"

text \<open>
  A handler that rejects without a reason (\<^verbatim>\<open>Promise.reject()\<close>), one that rejects
  with a value that has no message (a bare string), and a message that carries one
  invocation together with the interruption flag.
\<close>

definition nullishHandler :: config where
  "nullishHandler =
     \<lparr> voiceName = ''Kore'',
       onSystemAction = (\<lambda>name args. Rejected JsNullish) \<rparr>"

definition stringHandler :: config where
  "stringHandler =
     \<lparr> voiceName = ''Kore'',
       onSystemAction = (\<lambda>name args. Rejected (JsValue None)) \<rparr>"

definition flaggedToolMessage :: LiveServerMessage where
  "flaggedToolMessage =
     \<lparr> toolCall = Some \<lparr> functionCalls = [exampleCall] \<rparr>,
       serverContent = Some \<lparr> modelTurn = None, interrupted = Some True \<rparr> \<rparr>"

section \<open>Properties\<close>

subsection \<open>Evaluating the examples\<close>

lemma connected_eq:
  "connected =
     \<lparr>sessionPromise = Some (Fulfilled 7),
      inputAudioContext = Some \<lparr>sampleRate = 16000, ctx_state = Running\<rparr>,
      outputAudioContext = Some \<lparr>sampleRate = 24000, ctx_state = Running\<rparr>,
      stream = Some [0], processor = Some 4096, source = Some [0],
      nextStartTime = 0, activeSources = [], isMuted = False\<rparr>"
  by (simp add: connected_def handleOpen_def startAudioStreaming_def connect_def
      grantedEnv_def initial_def)

lemma disconnected_eq: "fst (disconnect connected) = initial"
  by (simp add: connected_eq initial_def disconnect_def andThen_def releaseProcessor_def
      releaseSource_def releaseStream_def closeInput_def closeOutput_def stopSources_def
      closeSession_def)

lemma denied_connect:
  "connect deniedEnv initial =
     (initial\<lparr>inputAudioContext := Some \<lparr>sampleRate = 16000, ctx_state = Running\<rparr>,
              outputAudioContext := Some \<lparr>sampleRate = 24000, ctx_state = Running\<rparr>\<rparr>,
      [OnStatusChange ''CONNECTING'', ConsoleError ''Connection failed:'',
       OnStatusChange ''ERROR'', OnError ''Permission denied'',
       OnLog SYSTEM ''Connection Aborted: Permission denied'' Failure])"
  by (simp add: connect_def deniedEnv_def connectFailed_def connectErrorMessage_def
      friendlyMessage_def)

lemma rejected_connect:
  "connect rejectedEnv initial =
     (initial\<lparr>inputAudioContext := Some \<lparr>sampleRate = 16000, ctx_state = Running\<rparr>,
              outputAudioContext := Some \<lparr>sampleRate = 24000, ctx_state = Running\<rparr>,
              stream := Some [0],
              sessionPromise := Some (Rejected (JsError ''403 Forbidden''))\<rparr>,
      [OnStatusChange ''CONNECTING''])"
  by (simp add: connect_def rejectedEnv_def)

lemma disconnect_after_denied_connect:
  "disconnect (fst (connect deniedEnv initial)) =
     (initial, [ContextClose 16000, ContextClose 24000])"
  unfolding denied_connect
  by (simp add: initial_def disconnect_def andThen_def
      releaseProcessor_def releaseSource_def
      releaseStream_def closeInput_def closeOutput_def stopSources_def closeSession_def)

lemma firstChunk_run:
  "run workingHandler exampleUtils connected [firstChunk] =
     (connected\<lparr>nextStartTime := 5 / 2, activeSources := [1]\<rparr>,
      [OnAudioData (playbackLevel (map of_char ''abcde'')), SourceStart 1 2 (1 / 2)])"
  by (simp add: firstChunk_def handleMessage_def handleToolCalls_def audioMessage_def
      playAudio_def base64Audio_def handleInterruption_def interruptedFlag_def
      connected_eq exampleUtils_def setAdd_def)

lemma secondChunk_handled:
  "handleMessage workingHandler exampleUtils \<lparr>currentTime = 21 / 10, createBufferSource = 2\<rparr>
     (connected\<lparr>nextStartTime := 5 / 2, activeSources := [1]\<rparr>) (audioMessage ''abc'') =
     (connected\<lparr>nextStartTime := 14 / 5, activeSources := [1, 2]\<rparr>,
      [OnAudioData (playbackLevel (map of_char ''abc'')), SourceStart 2 (5 / 2) (3 / 10)], None)"
  by (simp add: handleMessage_def handleToolCalls_def audioMessage_def
      playAudio_def base64Audio_def handleInterruption_def interruptedFlag_def
      connected_eq exampleUtils_def setAdd_def)

lemma twoQueued_eq:
  "twoQueued = connected\<lparr>nextStartTime := 14 / 5, activeSources := [1, 2]\<rparr>"
proof -
  have "run workingHandler exampleUtils connected
       [firstChunk,
        Message \<lparr>currentTime = 21 / 10, createBufferSource = 2\<rparr> (audioMessage ''abc'')] =
     (connected\<lparr>nextStartTime := 14 / 5, activeSources := [1, 2]\<rparr>,
      [OnAudioData (playbackLevel (map of_char ''abcde'')), SourceStart 1 2 (1 / 2),
       OnAudioData (playbackLevel (map of_char ''abc'')), SourceStart 2 (5 / 2) (3 / 10)])"
    using firstChunk_run secondChunk_handled
    by (simp split: prod.splits)
  then show ?thesis by (simp add: twoQueued_def)
qed

lemma sumSquares_replicate:
  "foldl (\<lambda>acc x. acc + x * x) a (replicate n c) = a + real n * (c * c)"
  by (induction n arbitrary: a) (simp_all add: algebra_simps)

lemma captureRms_replicate:
  assumes "0 < n" and "0 \<le> c"
  shows "captureRms (replicate n c) = c"
  using assms by (simp add: captureRms_def sumSquares_def sumSquares_replicate)

lemma captureRms_half: "captureRms [1 / 2, 1 / 2] = 1 / 2"
  using captureRms_replicate [of 2 "1 / 2"] by (simp add: numeral_2_eq_2)

subsection \<open>Reading a trace piece by piece\<close>

lemma scheduled_append: "scheduled (xs @ ys) = scheduled xs @ scheduled ys"
  by (induction xs rule: scheduled.induct) simp_all

lemma levels_append: "levels (xs @ ys) = levels xs @ levels ys"
  by (induction xs rule: levels.induct) simp_all

lemma stopped_append: "stopped (xs @ ys) = stopped xs @ stopped ys"
  by (induction xs rule: stopped.induct) simp_all

lemma replies_append: "replies (xs @ ys) = replies xs @ replies ys"
  by (induction xs rule: replies.induct) simp_all

lemma statusReports_append: "statusReports (xs @ ys) = statusReports xs @ statusReports ys"
  by (induction xs rule: statusReports.induct) simp_all

lemma stopped_map_SourceStop: "stopped (map SourceStop hs) = hs"
  by (induction hs) simp_all

lemma scheduled_map_SourceStop: "scheduled (map SourceStop hs) = []"
  by (induction hs) simp_all

lemma levels_map_SourceStop: "levels (map SourceStop hs) = []"
  by (induction hs) simp_all

lemma replies_map_SourceStop: "replies (map SourceStop hs) = []"
  by (induction hs) simp_all

lemma statusReports_map_TrackStop: "statusReports (map TrackStop ts) = []"
  by (induction ts) simp_all

lemma statusReports_map_SourceStop: "statusReports (map SourceStop hs) = []"
  by (induction hs) simp_all

lemma levels_sendFrame: "levels (sendFrame u s frame) = []"
  by (simp add: sendFrame_def Let_def split: option.splits promise.splits)

text \<open>The tool loop starts no playback, reports no level and stops no source.\<close>

lemma sendToolResponse_quiet:
  "scheduled (sendToolResponse s fc r) = [] \<and> levels (sendToolResponse s fc r) = []
   \<and> stopped (sendToolResponse s fc r) = []"
  by (simp add: sendToolResponse_def split: option.splits promise.splits)

lemma dispatch_quiet:
  "scheduled (fst (dispatch cfg s fc)) = [] \<and> levels (fst (dispatch cfg s fc)) = []
   \<and> stopped (fst (dispatch cfg s fc)) = []"
  by (simp add: dispatch_def Let_def scheduled_append levels_append stopped_append
      sendToolResponse_quiet split: promise.splits sum.splits)

lemma dispatchAll_quiet:
  "scheduled (fst (dispatchAll cfg s fcs)) = [] \<and> levels (fst (dispatchAll cfg s fcs)) = []
   \<and> stopped (fst (dispatchAll cfg s fcs)) = []"
proof (induction fcs)
  case Nil
  then show ?case by simp
next
  case (Cons fc fcs)
  obtain evs r where d: "dispatch cfg s fc = (evs, r)"
    by (cases "dispatch cfg s fc")
  obtain evs' r' where da: "dispatchAll cfg s fcs = (evs', r')"
    by (cases "dispatchAll cfg s fcs")
  from dispatch_quiet [of cfg s fc] d
  have q: "scheduled evs = [] \<and> levels evs = [] \<and> stopped evs = []" by simp
  from Cons da have q': "scheduled evs' = [] \<and> levels evs' = [] \<and> stopped evs' = []" by simp
  show ?case using d da q q'
    by (cases r) (simp_all add: scheduled_append levels_append stopped_append)
qed

lemma handleToolCalls_quiet:
  "scheduled (fst (handleToolCalls cfg s m)) = [] \<and> levels (fst (handleToolCalls cfg s m)) = []
   \<and> stopped (fst (handleToolCalls cfg s m)) = []"
  by (simp add: handleToolCalls_def dispatchAll_quiet split: option.splits)

lemma handleInterruption_quiet:
  "scheduled (snd (handleInterruption s m)) = [] \<and> levels (snd (handleInterruption s m)) = []"
  by (simp add: handleInterruption_def scheduled_append levels_append
      scheduled_map_SourceStop levels_map_SourceStop)

text \<open>The audio step on its own.\<close>

lemma playAudio_replies: "replies (snd (playAudio u env s m)) = []"
  by (simp add: playAudio_def Let_def split: option.splits)

lemma playAudio_stopped: "stopped (snd (playAudio u env s m)) = []"
  by (simp add: playAudio_def Let_def split: option.splits)

lemma playAudio_keeps_active:
  "set (activeSources s) \<subseteq> set (activeSources (fst (playAudio u env s m)))"
  by (auto simp: playAudio_def Let_def setAdd_def split: option.splits)

lemma playAudio_schedules:
  assumes "base64Audio m = Some b64" and "b64 \<noteq> []" and "outputAudioContext s = Some ctx"
  shows "scheduled (snd (playAudio u env s m)) =
           [(max (nextStartTime s) (currentTime env), decodeAudioData u (base64ToUint8Array u b64))] \<and>
         nextStartTime (fst (playAudio u env s m)) =
           max (nextStartTime s) (currentTime env) + decodeAudioData u (base64ToUint8Array u b64)"
  using assms by (simp add: playAudio_def Let_def)

lemma playAudio_timeline:
  "gapless (nextStartTime s) (scheduled (snd (playAudio u env s m))) \<and>
   nextStartTime (fst (playAudio u env s m)) =
     cursorAfter (nextStartTime s) (scheduled (snd (playAudio u env s m))) \<and>
   outputAudioContext (fst (playAudio u env s m)) = outputAudioContext s"
  by (simp add: playAudio_def Let_def split: option.splits)

lemma playAudio_durations:
  assumes "\<forall>bytes. 0 \<le> decodeAudioData u bytes"
  shows "list_all (\<lambda>(t, d). 0 \<le> d) (scheduled (snd (playAudio u env s m)))"
  using assms by (simp add: playAudio_def Let_def split: option.splits)

text \<open>
  What a whole message adds to the timeline is what its audio step adds, unless the tool
  loop failed; the replies of a message are those of its tool loop.
\<close>

lemma handleMessage_timeline:
  assumes "handleMessage cfg u env s m = (s', evs, r)"
  shows "scheduled evs = (if r = None then scheduled (snd (playAudio u env s m)) else [])"
    and "nextStartTime s' =
           (if r = None
            then (if interruptedFlag m then 0 else nextStartTime (fst (playAudio u env s m)))
            else nextStartTime s)"
    and "outputAudioContext s' = outputAudioContext s"
proof -
  obtain evs1 r1 where tc: "handleToolCalls cfg s m = (evs1, r1)"
    by (cases "handleToolCalls cfg s m")
  obtain s2 evs2 where pa: "playAudio u env s m = (s2, evs2)"
    by (cases "playAudio u env s m")
  obtain s3 evs3 where hi: "handleInterruption s2 m = (s3, evs3)"
    by (cases "handleInterruption s2 m")
  from handleToolCalls_quiet [of cfg s m] tc have q1: "scheduled evs1 = []" by simp
  from handleInterruption_quiet [of s2 m] hi have q3: "scheduled evs3 = []" by simp
  from playAudio_timeline [of s u env m] pa
  have oc: "outputAudioContext s2 = outputAudioContext s" by simp
  show "scheduled evs = (if r = None then scheduled (snd (playAudio u env s m)) else [])"
    using assms tc pa hi q1 q3
    by (cases r1) (auto simp: handleMessage_def scheduled_append)
  show "nextStartTime s' =
           (if r = None
            then (if interruptedFlag m then 0 else nextStartTime (fst (playAudio u env s m)))
            else nextStartTime s)"
    using assms tc pa hi
    by (cases r1) (auto simp: handleMessage_def handleInterruption_def split: if_splits)
  show "outputAudioContext s' = outputAudioContext s"
    using assms tc pa hi oc
    by (cases r1) (auto simp: handleMessage_def handleInterruption_def split: if_splits)
qed

lemma handleInterruption_replies: "replies (snd (handleInterruption s m)) = []"
  by (simp add: handleInterruption_def replies_append replies_map_SourceStop)

lemma handleMessage_replies:
  assumes "handleMessage cfg u env s m = (s', evs, r)"
  shows "replies evs = replies (fst (handleToolCalls cfg s m)) \<and>
         r = snd (handleToolCalls cfg s m)"
proof -
  obtain evs1 r1 where tc: "handleToolCalls cfg s m = (evs1, r1)"
    by (cases "handleToolCalls cfg s m")
  obtain s2 evs2 where pa: "playAudio u env s m = (s2, evs2)"
    by (cases "playAudio u env s m")
  obtain s3 evs3 where hi: "handleInterruption s2 m = (s3, evs3)"
    by (cases "handleInterruption s2 m")
  from playAudio_replies [of u env s m] pa have r2: "replies evs2 = []" by simp
  from handleInterruption_replies [of s2 m] hi have r3: "replies evs3 = []" by simp
  show ?thesis
    using assms tc pa hi r2 r3
    by (cases r1) (auto simp: handleMessage_def replies_append)
qed

subsection \<open>Gapless playback\<close>

lemma gapless_append:
  "gapless c (xs @ ys) = (gapless c xs \<and> gapless (cursorAfter c xs) ys)"
  by (induction c xs rule: gapless.induct) simp_all

lemma cursorAfter_append:
  "cursorAfter c (xs @ ys) = cursorAfter (cursorAfter c xs) ys"
  by (induction c xs rule: cursorAfter.induct) simp_all

lemma react_timeline:
  assumes "\<not> interrupts x" and "react cfg u s x = (s', evs)"
  shows "gapless (nextStartTime s) (scheduled evs) \<and>
         nextStartTime s' = cursorAfter (nextStartTime s) (scheduled evs)"
proof (cases x)
  case (Message env m)
  obtain s1 evs1 r where h: "handleMessage cfg u env s m = (s1, evs1, r)"
    by (cases "handleMessage cfg u env s m")
  with assms(2) Message have eq: "s' = s1" "evs = evs1" by simp_all
  from assms(1) Message have ni: "\<not> interruptedFlag m" by simp
  show ?thesis
    using handleMessage_timeline(1,2) [OF h] playAudio_timeline [of s u env m] ni eq
    by (cases r) simp_all
next
  case (Ended h)
  with assms(2) show ?thesis by (auto simp: onended_def)
qed

lemma react_durations:
  assumes "\<forall>bytes. 0 \<le> decodeAudioData u bytes" and "react cfg u s x = (s', evs)"
  shows "list_all (\<lambda>(t, d). 0 \<le> d) (scheduled evs)"
proof (cases x)
  case (Message env m)
  obtain s1 evs1 r where h: "handleMessage cfg u env s m = (s1, evs1, r)"
    by (cases "handleMessage cfg u env s m")
  with assms(2) Message have eq: "evs = evs1" by simp
  show ?thesis
    using handleMessage_timeline(1) [OF h] playAudio_durations [OF assms(1), of env s m] eq
    by (cases r) simp_all
next
  case (Ended h)
  with assms(2) show ?thesis by auto
qed

lemma run_timeline:
  assumes "\<forall>x \<in> set xs. \<not> interrupts x" and "run cfg u s xs = (s', evs)"
  shows "gapless (nextStartTime s) (scheduled evs) \<and>
         nextStartTime s' = cursorAfter (nextStartTime s) (scheduled evs)"
  using assms
proof (induction xs arbitrary: s s' evs)
  case Nil
  then show ?case by simp
next
  case (Cons x xs)
  obtain s1 evs1 where r1: "react cfg u s x = (s1, evs1)"
    by (cases "react cfg u s x")
  obtain s2 evs2 where r2: "run cfg u s1 xs = (s2, evs2)"
    by (cases "run cfg u s1 xs")
  from Cons.prems(2) r1 r2 have eq: "s' = s2" "evs = evs1 @ evs2" by simp_all
  from Cons.prems(1) have nx: "\<not> interrupts x" and nxs: "\<forall>y \<in> set xs. \<not> interrupts y"
    by simp_all
  from react_timeline [OF nx r1]
  have a: "gapless (nextStartTime s) (scheduled evs1)"
    and b: "nextStartTime s1 = cursorAfter (nextStartTime s) (scheduled evs1)" by simp_all
  from Cons.IH [OF nxs r2]
  have c: "gapless (nextStartTime s1) (scheduled evs2)"
    and d: "nextStartTime s2 = cursorAfter (nextStartTime s1) (scheduled evs2)" by simp_all
  show ?case using a b c d eq
    by (simp add: scheduled_append gapless_append cursorAfter_append)
qed

lemma run_durations:
  assumes "\<forall>bytes. 0 \<le> decodeAudioData u bytes" and "run cfg u s xs = (s', evs)"
  shows "list_all (\<lambda>(t, d). 0 \<le> d) (scheduled evs)"
  using assms(2)
proof (induction xs arbitrary: s s' evs)
  case Nil
  then show ?case by simp
next
  case (Cons x xs)
  obtain s1 evs1 where r1: "react cfg u s x = (s1, evs1)"
    by (cases "react cfg u s x")
  obtain s2 evs2 where r2: "run cfg u s1 xs = (s2, evs2)"
    by (cases "run cfg u s1 xs")
  from Cons.prems r1 r2 have eq: "evs = evs1 @ evs2" by simp
  show ?case
    using react_durations [OF assms(1) r1] Cons.IH [OF r2] eq
    by (simp add: scheduled_append)
qed

lemma list_all_start_mono:
  assumes "list_all (\<lambda>(t, d). b \<le> t) sch" and "a \<le> (b::real)"
  shows "list_all (\<lambda>(t, d). a \<le> t) sch"
  using assms by (induction sch) auto

lemma gapless_orders:
  assumes "gapless c sch" and "list_all (\<lambda>(t, d). 0 \<le> d) sch"
  shows "list_all (\<lambda>(t, d). c \<le> t) sch \<and> sorted (map fst sch) \<and> overlapFree sch"
  using assms
proof (induction sch arbitrary: c)
  case Nil
  then show ?case by simp
next
  case (Cons p sch)
  obtain t d where p: "p = (t, d)" by (cases p)
  from Cons.prems p have ct: "c \<le> t" and g: "gapless (t + d) sch"
    and d0: "0 \<le> d" and ds: "list_all (\<lambda>(t, d). 0 \<le> d) sch"
    by simp_all
  from Cons.IH [OF g ds]
  have after: "list_all (\<lambda>(t', d'). t + d \<le> t') sch"
    and srt: "sorted (map fst sch)" and ov: "overlapFree sch" by simp_all
  from list_all_start_mono [OF after, of t] d0
  have fromt: "list_all (\<lambda>(t', d'). t \<le> t') sch" by simp
  from list_all_start_mono [OF fromt ct]
  have fromc: "list_all (\<lambda>(t', d'). c \<le> t') sch" .
  from fromt have "\<forall>y \<in> set (map fst sch). t \<le> y"
    by (auto simp: list_all_iff)
  with srt have "sorted (map fst (p # sch))" by (simp add: p)
  with ct fromc after ov show ?case by (simp add: p)
qed

text \<open>
  C1. Take any sequence of inbound events without an interruption (messages, with or
  without audio and tool calls, and natural ends of playback), followed by a message
  that carries an audio chunk. The chunk is scheduled at the maximum of the cursor and
  the output clock, and the cursor moves to that start plus the duration of the chunk.
  Over the whole sequence every start is at or after the end of the chunk placed before
  it, so, durations being non-negative, the start times are non-decreasing and every
  chunk ends before each later chunk starts.
\<close>

theorem playback_chunks_are_scheduled_back_to_back:
  assumes "\<forall>bytes. 0 \<le> decodeAudioData u bytes"
    and "\<forall>x \<in> set xs. \<not> interrupts x"
    and "run cfg u s xs = (s1, evs1)"
    and "handleMessage cfg u env s1 m = (s2, evs2, None)"
    and "base64Audio m = Some b64" and "b64 \<noteq> []"
    and "outputAudioContext s1 = Some ctx"
    and "\<not> interruptedFlag m"
  shows "scheduled evs2 =
           [(max (nextStartTime s1) (currentTime env),
             decodeAudioData u (base64ToUint8Array u b64))] \<and>
         nextStartTime s2 =
           max (nextStartTime s1) (currentTime env) +
           decodeAudioData u (base64ToUint8Array u b64) \<and>
         gapless (nextStartTime s) (scheduled (evs1 @ evs2)) \<and>
         sorted (map fst (scheduled (evs1 @ evs2))) \<and>
         overlapFree (scheduled (evs1 @ evs2))"
proof -
  let ?dur = "decodeAudioData u (base64ToUint8Array u b64)"
  let ?start = "max (nextStartTime s1) (currentTime env)"
  from playAudio_schedules [OF assms(5,6,7), of u env]
  have pa: "scheduled (snd (playAudio u env s1 m)) = [(?start, ?dur)]"
    and pc: "nextStartTime (fst (playAudio u env s1 m)) = ?start + ?dur" by simp_all
  from handleMessage_timeline(1) [OF assms(4)] pa
  have one: "scheduled evs2 = [(?start, ?dur)]" by simp
  from handleMessage_timeline(2) [OF assms(4)] pc assms(8)
  have cur: "nextStartTime s2 = ?start + ?dur" by simp
  from run_timeline [OF assms(2,3)]
  have g1: "gapless (nextStartTime s) (scheduled evs1)"
    and c1: "nextStartTime s1 = cursorAfter (nextStartTime s) (scheduled evs1)" by simp_all
  have g: "gapless (nextStartTime s) (scheduled (evs1 @ evs2))"
    using g1 c1 one by (simp add: scheduled_append gapless_append)
  from run_durations [OF assms(1,3)] one assms(1)
  have ds: "list_all (\<lambda>(t, d). 0 \<le> d) (scheduled (evs1 @ evs2))"
    by (simp add: scheduled_append)
  from gapless_orders [OF g ds] one cur g show ?thesis by simp
qed

text \<open>
  The scenario of the specification: a chunk of 500 ms and then a chunk of 300 ms that
  arrives while the first is playing; the second starts 500 ms after the first.
\<close>

theorem second_chunk_starts_where_first_ends:
  "(\<forall>bytes. 0 \<le> decodeAudioData exampleUtils bytes) \<and>
   \<not> interrupts firstChunk \<and>
   base64Audio (audioMessage ''abc'') = Some ''abc'' \<and>
   scheduled (snd (run workingHandler exampleUtils connected [firstChunk])) = [(2, 1 / 2)] \<and>
   scheduled (fst (snd (handleMessage workingHandler exampleUtils
       \<lparr>currentTime = 21 / 10, createBufferSource = 2\<rparr>
       (fst (run workingHandler exampleUtils connected [firstChunk])) (audioMessage ''abc'')))) =
     [(2 + 1 / 2, 3 / 10)]"
proof -
  let ?s1 = "connected\<lparr>nextStartTime := 5 / 2, activeSources := [1]\<rparr>"
  let ?env = "\<lparr>currentTime = 21 / 10, createBufferSource = 2\<rparr>"
  have a1: "\<forall>bytes. 0 \<le> decodeAudioData exampleUtils bytes"
    by (simp add: exampleUtils_def)
  have a2: "\<forall>x \<in> set [firstChunk]. \<not> interrupts x"
    by (simp add: firstChunk_def interruptedFlag_def audioMessage_def)
  have a5: "base64Audio (audioMessage ''abc'') = Some ''abc''"
    by (simp add: base64Audio_def audioMessage_def)
  have a6: "''abc'' \<noteq> []" by simp
  have a7: "outputAudioContext ?s1 = Some \<lparr>sampleRate = 24000, ctx_state = Running\<rparr>"
    by (simp add: connected_eq)
  have a8: "\<not> interruptedFlag (audioMessage ''abc'')"
    by (simp add: interruptedFlag_def audioMessage_def)
  from playback_chunks_are_scheduled_back_to_back
         [OF a1 a2 firstChunk_run secondChunk_handled a5 a6 a7 a8]
  have "scheduled [OnAudioData (playbackLevel (map of_char ''abc'')), SourceStart 2 (5 / 2) (3 / 10)] =
          [(max (nextStartTime ?s1) (currentTime ?env),
            decodeAudioData exampleUtils (base64ToUint8Array exampleUtils ''abc''))]"
    by simp
  then show ?thesis
    using a1 a2 a5 firstChunk_run secondChunk_handled by simp
qed

subsection \<open>Interruption\<close>

text \<open>
  A message with the interruption flag that is handled to its end: every source that
  was registered (those of the earlier messages and the one the same message may have
  started) has been stopped, in the order of registration, the set of active sources is
  empty and the cursor is zero, however many sources there were. The next chunk is then
  scheduled at the reading of the output clock, which is never negative.
\<close>

lemma interruption_flushes_playback:
  assumes "interruptedFlag m"
    and "handleMessage cfg u env s m = (s', evs, None)"
  shows "activeSources s' = [] \<and> nextStartTime s' = 0 \<and>
         stopped evs = activeSources (fst (playAudio u env s m)) \<and>
         set (activeSources s) \<subseteq> set (stopped evs) \<and>
         (handleMessage cfg u env' s' m' = (s'', evs', None) \<and>
          base64Audio m' = Some b64 \<and> b64 \<noteq> [] \<and> outputAudioContext s' = Some ctx \<and>
          0 \<le> currentTime env' \<longrightarrow>
            scheduled evs' =
              [(currentTime env', decodeAudioData u (base64ToUint8Array u b64))])"
proof -
  obtain evs1 r1 where tc: "handleToolCalls cfg s m = (evs1, r1)"
    by (cases "handleToolCalls cfg s m")
  obtain s2 evs2 where pa: "playAudio u env s m = (s2, evs2)"
    by (cases "playAudio u env s m")
  from assms(2) tc have r1: "r1 = None"
    by (cases r1) (simp_all add: handleMessage_def)
  from assms tc pa r1 have s': "s' = s2\<lparr>activeSources := [], nextStartTime := 0\<rparr>"
    and evs: "evs = evs1 @ evs2 @ map SourceStop (activeSources s2) @
                [OnLog SYSTEM ''Output Interrupted'' Warning]"
    by (simp_all add: handleMessage_def handleInterruption_def)
  from handleToolCalls_quiet [of cfg s m] tc have q1: "stopped evs1 = []" by simp
  from playAudio_stopped [of u env s m] pa have q2: "stopped evs2 = []" by simp
  have st: "stopped evs = activeSources s2"
    by (simp add: evs stopped_append q1 q2 stopped_map_SourceStop)
  from playAudio_keeps_active [of s u env m] pa
  have sub: "set (activeSources s) \<subseteq> set (activeSources s2)" by simp
  have nxt: "handleMessage cfg u env' s' m' = (s'', evs', None) \<and>
          base64Audio m' = Some b64 \<and> b64 \<noteq> [] \<and> outputAudioContext s' = Some ctx \<and>
          0 \<le> currentTime env' \<longrightarrow>
            scheduled evs' =
              [(currentTime env', decodeAudioData u (base64ToUint8Array u b64))]"
  proof
    assume a: "handleMessage cfg u env' s' m' = (s'', evs', None) \<and>
          base64Audio m' = Some b64 \<and> b64 \<noteq> [] \<and> outputAudioContext s' = Some ctx \<and>
          0 \<le> currentTime env'"
    then have h: "handleMessage cfg u env' s' m' = (s'', evs', None)" by simp
    from a have "scheduled (snd (playAudio u env' s' m')) =
           [(max (nextStartTime s') (currentTime env'),
             decodeAudioData u (base64ToUint8Array u b64))]"
      using playAudio_schedules [of m' b64 s' ctx u env'] by simp
    moreover have "max (nextStartTime s') (currentTime env') = currentTime env'"
      using a s' by simp
    moreover from handleMessage_timeline(1) [OF h]
    have "scheduled evs' = scheduled (snd (playAudio u env' s' m'))" by simp
    ultimately show "scheduled evs' =
              [(currentTime env', decodeAudioData u (base64ToUint8Array u b64))]"
      by simp
  qed
  show ?thesis using s' st sub pa nxt by simp
qed

text \<open>Two chunks are queued, the interruption arrives, and the next chunk starts at the clock.\<close>

lemma interruption_example:
  "interruptedFlag interruptionMessage \<and>
   activeSources twoQueued = [1, 2] \<and> nextStartTime twoQueued = 14 / 5 \<and>
   handleMessage workingHandler exampleUtils \<lparr>currentTime = 3, createBufferSource = 3\<rparr>
     twoQueued interruptionMessage =
     (connected, [SourceStop 1, SourceStop 2, OnLog SYSTEM ''Output Interrupted'' Warning], None) \<and>
   scheduled (fst (snd (handleMessage workingHandler exampleUtils
     \<lparr>currentTime = 3, createBufferSource = 3\<rparr> connected (audioMessage ''abc'')))) =
     [(3, 3 / 10)]"
proof -
  let ?env = "\<lparr>currentTime = 3, createBufferSource = 3\<rparr>"
  let ?evs = "[OnAudioData (playbackLevel (map of_char ''abc'')), SourceStart 3 3 (3 / 10)]"
  have a1: "interruptedFlag interruptionMessage"
    by (simp add: interruptedFlag_def interruptionMessage_def)
  have a2: "handleMessage workingHandler exampleUtils ?env twoQueued interruptionMessage =
     (connected, [SourceStop 1, SourceStop 2, OnLog SYSTEM ''Output Interrupted'' Warning], None)"
    by (simp add: twoQueued_eq handleMessage_def handleToolCalls_def interruptionMessage_def
      playAudio_def base64Audio_def handleInterruption_def interruptedFlag_def connected_eq)
  have h: "handleMessage workingHandler exampleUtils ?env connected (audioMessage ''abc'') =
     (connected\<lparr>nextStartTime := 33 / 10, activeSources := [3]\<rparr>, ?evs, None)"
    by (simp add: handleMessage_def handleToolCalls_def audioMessage_def
      playAudio_def base64Audio_def handleInterruption_def interruptedFlag_def
      connected_eq exampleUtils_def setAdd_def)
  have b: "base64Audio (audioMessage ''abc'') = Some ''abc'' \<and> ''abc'' \<noteq> [] \<and>
           outputAudioContext connected = Some \<lparr>sampleRate = 24000, ctx_state = Running\<rparr> \<and>
           0 \<le> currentTime ?env"
    by (simp add: base64Audio_def audioMessage_def connected_eq)
  from interruption_flushes_playback [OF a1 a2, of ?env "audioMessage ''abc''"
         "connected\<lparr>nextStartTime := 33 / 10, activeSources := [3]\<rparr>" ?evs "''abc''"
         "\<lparr>sampleRate = 24000, ctx_state = Running\<rparr>"] h b
  have "scheduled ?evs =
          [(currentTime ?env, decodeAudioData exampleUtils (base64ToUint8Array exampleUtils ''abc''))]"
    by blast
  then show ?thesis using a1 a2 h by (simp add: twoQueued_eq)
qed

text \<open>
  C2. The code at a failing input. The interruption is the third step of the method,
  after the tool loop. When the same message carries an invocation whose handler rejects
  without a reason, reading \<^verbatim>\<open>err.message\<close> in the catch block raises a \<^verbatim>\<open>TypeError\<close>, the
  method rejects, and the flag is never looked at: with two sources registered, no
  source is stopped, the set keeps both and the cursor keeps its value.
\<close>

theorem flagged_message_with_failing_tool_call_stops_nothing:
  "interruptedFlag flaggedToolMessage \<and>
   activeSources twoQueued = [1, 2] \<and> nextStartTime twoQueued = 14 / 5 \<and>
   handleMessage nullishHandler exampleUtils \<lparr>currentTime = 3, createBufferSource = 3\<rparr>
     twoQueued flaggedToolMessage =
     (twoQueued,
      [OnLog JARVIS ''Executing protocol: X'' Info, OnSystemAction ''X'' (JObject [])],
      Some TypeError) \<and>
   stopped [OnLog JARVIS ''Executing protocol: X'' Info, OnSystemAction ''X'' (JObject [])] = []"
proof -
  have f: "interruptedFlag flaggedToolMessage"
    by (simp add: interruptedFlag_def flaggedToolMessage_def)
  have tc: "handleToolCalls nullishHandler twoQueued flaggedToolMessage =
              ([OnLog JARVIS ''Executing protocol: X'' Info, OnSystemAction ''X'' (JObject [])],
               Some TypeError)"
    by (simp add: handleToolCalls_def flaggedToolMessage_def dispatch_def nullishHandler_def
        errStr_def exampleCall_def)
  have h: "handleMessage nullishHandler exampleUtils \<lparr>currentTime = 3, createBufferSource = 3\<rparr>
     twoQueued flaggedToolMessage =
     (twoQueued,
      [OnLog JARVIS ''Executing protocol: X'' Info, OnSystemAction ''X'' (JObject [])],
      Some TypeError)"
    by (simp add: handleMessage_def tc)
  show ?thesis using f h by (simp add: twoQueued_eq)
qed

subsection \<open>Tool calls\<close>

lemma dispatch_replies:
  assumes "sessionPromise s = Some (Fulfilled sess)"
    and "onSystemAction cfg (call_name fc) (call_args fc) \<noteq> Rejected JsNullish"
  shows "snd (dispatch cfg s fc) = None \<and>
         (\<exists>x. replies (fst (dispatch cfg s fc)) =
            [(sess, \<lparr>resp_id = call_id fc, resp_name = call_name fc,
                     response = JObject [(''result'', x)]\<rparr>)])"
proof (cases "onSystemAction cfg (call_name fc) (call_args fc)")
  case (Fulfilled result)
  with assms(1) show ?thesis
    by (simp add: dispatch_def sendToolResponse_def)
next
  case (Rejected err)
  with assms(2) have "err \<noteq> JsNullish" by simp
  then obtain m where "errStr err = Inr m"
    by (cases err) (simp_all add: errStr_def)
  with Rejected assms(1) show ?thesis
    by (simp add: dispatch_def sendToolResponse_def)
qed

lemma dispatchAll_replies:
  assumes "sessionPromise s = Some (Fulfilled sess)"
    and "\<forall>fc \<in> set fcs. onSystemAction cfg (call_name fc) (call_args fc) \<noteq> Rejected JsNullish"
  shows "snd (dispatchAll cfg s fcs) = None \<and>
         map (\<lambda>(se, r). (se, resp_id r, resp_name r)) (replies (fst (dispatchAll cfg s fcs))) =
           map (\<lambda>fc. (sess, call_id fc, call_name fc)) fcs \<and>
         list_all wellFormedReply (replies (fst (dispatchAll cfg s fcs)))"
  using assms(2)
proof (induction fcs)
  case Nil
  then show ?case by simp
next
  case (Cons fc fcs)
  obtain evs r where d: "dispatch cfg s fc = (evs, r)"
    by (cases "dispatch cfg s fc")
  obtain evs' r' where da: "dispatchAll cfg s fcs = (evs', r')"
    by (cases "dispatchAll cfg s fcs")
  from Cons.prems
  have ok: "onSystemAction cfg (call_name fc) (call_args fc) \<noteq> Rejected JsNullish"
    by simp
  from dispatch_replies [OF assms(1) ok] d obtain x where
    r: "r = None" and
    e: "replies evs = [(sess, \<lparr>resp_id = call_id fc, resp_name = call_name fc,
                              response = JObject [(''result'', x)]\<rparr>)]"
    by auto
  from Cons da have ih: "r' = None \<and>
      map (\<lambda>(se, r). (se, resp_id r, resp_name r)) (replies evs') =
        map (\<lambda>fc. (sess, call_id fc, call_name fc)) fcs \<and>
      list_all wellFormedReply (replies evs')"
    by simp
  have wf: "wellFormedReply (sess, \<lparr>resp_id = call_id fc, resp_name = call_name fc,
                                    response = JObject [(''result'', x)]\<rparr>)"
    by (simp add: wellFormedReply_def)
  show ?case using d da r e ih wf
    by (simp add: replies_append)
qed

lemma dispatch_no_session:
  assumes "sessionPromise s = None"
  shows "replies (fst (dispatch cfg s fc)) = []"
  using assms
  by (simp add: dispatch_def Let_def sendToolResponse_def replies_append
      split: promise.splits sum.splits)

lemma dispatchAll_no_session:
  assumes "sessionPromise s = None"
  shows "replies (fst (dispatchAll cfg s fcs)) = []"
proof (induction fcs)
  case Nil
  then show ?case by simp
next
  case (Cons fc fcs)
  obtain evs r where d: "dispatch cfg s fc = (evs, r)" by (cases "dispatch cfg s fc")
  obtain evs' r' where da: "dispatchAll cfg s fcs = (evs', r')" by (cases "dispatchAll cfg s fcs")
  from dispatch_no_session[OF assms, of cfg fc] d have "replies evs = []" by simp
  moreover from Cons da have "replies evs' = []" by simp
  ultimately show ?case using d da by (cases r) (simp_all add: replies_append)
qed

text \<open>
  C3, as amended. For a message received while the session promise is set and
  fulfilled, and whose handler never rejects with \<^verbatim>\<open>null\<close> or \<^verbatim>\<open>undefined\<close>, the method
  completes and the replies handed to the session are, in order, exactly one per
  invocation, each with the identifier and the name of its invocation and a result
  under the key \<^verbatim>\<open>result\<close>, whether the handler returned or failed. When the session
  promise has been cleared the optional call is skipped and no reply is sent.
\<close>

theorem every_invocation_answered_once_while_session_is_set:
  assumes "toolCall m = Some tc"
    and "\<forall>fc \<in> set (functionCalls tc).
           onSystemAction cfg (call_name fc) (call_args fc) \<noteq> Rejected JsNullish"
    and "sessionPromise s = Some (Fulfilled sess)"
    and "handleMessage cfg u env s m = (s', evs, r)"
  shows "r = None \<and>
         map (\<lambda>(se, r). (se, resp_id r, resp_name r)) (replies evs) =
           map (\<lambda>fc. (sess, call_id fc, call_name fc)) (functionCalls tc) \<and>
         list_all wellFormedReply (replies evs) \<and>
         (sessionPromise s0 = None \<and> handleMessage cfg u env0 s0 m = (s0', evs0, r0) \<longrightarrow>
            replies evs0 = [])"
proof -
  have none: "sessionPromise s0 = None \<and> handleMessage cfg u env0 s0 m = (s0', evs0, r0) \<longrightarrow>
            replies evs0 = []"
  proof
    assume a: "sessionPromise s0 = None \<and> handleMessage cfg u env0 s0 m = (s0', evs0, r0)"
    then have h0: "handleMessage cfg u env0 s0 m = (s0', evs0, r0)"
      and n0: "sessionPromise s0 = None" by simp_all
    from handleMessage_replies [OF h0] dispatchAll_no_session [OF n0, of cfg "functionCalls tc"]
      assms(1)
    show "replies evs0 = []" by (simp add: handleToolCalls_def)
  qed
  from handleMessage_replies [OF assms(4)] dispatchAll_replies [OF assms(3) assms(2)] assms(1)
  have "r = None \<and>
         map (\<lambda>(se, r). (se, resp_id r, resp_name r)) (replies evs) =
           map (\<lambda>fc. (sess, call_id fc, call_name fc)) (functionCalls tc) \<and>
         list_all wellFormedReply (replies evs)"
    by (simp add: handleToolCalls_def)
  with none show ?thesis by simp
qed

text \<open>A message with a failing and a succeeding invocation: one reply each, in order.\<close>

theorem mixed_message_is_answered_once_each:
  "toolCall (toolMessage [exampleCall, secondCall]) =
     Some \<lparr>functionCalls = [exampleCall, secondCall]\<rparr> \<and>
   onSystemAction mixedHandler (call_name exampleCall) (call_args exampleCall) =
     Rejected (JsError ''Unknown protocol action: X'') \<and>
   onSystemAction mixedHandler (call_name secondCall) (call_args secondCall) =
     Fulfilled (JObject [(''status'', JStr ''OPTIMAL'')]) \<and>
   sessionPromise connected = Some (Fulfilled 7) \<and>
   map (\<lambda>(se, r). (se, resp_id r, resp_name r))
     (replies (fst (snd (handleMessage mixedHandler exampleUtils
        \<lparr>currentTime = 0, createBufferSource = 1\<rparr> connected
        (toolMessage [exampleCall, secondCall])))))
   = [(7, ''1'', ''X''), (7, ''2'', ''scanSystem'')]"
proof -
  let ?tc = "\<lparr>functionCalls = [exampleCall, secondCall]\<rparr>"
  let ?m = "toolMessage [exampleCall, secondCall]"
  let ?env = "\<lparr>currentTime = 0, createBufferSource = 1\<rparr>"
  have a1: "toolCall ?m = Some ?tc"
    by (simp add: toolMessage_def)
  have o1: "onSystemAction mixedHandler (call_name exampleCall) (call_args exampleCall) =
              Rejected (JsError ''Unknown protocol action: X'')"
    by (simp add: mixedHandler_def exampleCall_def)
  have o2: "onSystemAction mixedHandler (call_name secondCall) (call_args secondCall) =
              Fulfilled (JObject [(''status'', JStr ''OPTIMAL'')])"
    by (simp add: mixedHandler_def secondCall_def)
  have a2: "\<forall>fc \<in> set (functionCalls ?tc).
              onSystemAction mixedHandler (call_name fc) (call_args fc) \<noteq> Rejected JsNullish"
    using o1 o2 by simp
  have a3: "sessionPromise connected = Some (Fulfilled 7)"
    by (simp add: connected_eq)
  obtain s' evs r where h: "handleMessage mixedHandler exampleUtils ?env connected ?m = (s', evs, r)"
    by (cases "handleMessage mixedHandler exampleUtils ?env connected ?m")
  from every_invocation_answered_once_while_session_is_set [OF a1 a2 a3 h]
  have "map (\<lambda>(se, r). (se, resp_id r, resp_name r)) (replies evs) =
          map (\<lambda>fc. (7, call_id fc, call_name fc)) (functionCalls ?tc)"
    by simp
  then have "map (\<lambda>(se, r). (se, resp_id r, resp_name r)) (replies evs) =
          [(7, ''1'', ''X''), (7, ''2'', ''scanSystem'')]"
    by (simp add: exampleCall_def secondCall_def)
  with a1 o1 o2 a3 h show ?thesis by simp
qed

text \<open>
  C3, as stated, fails once \<^verbatim>\<open>disconnect\<close> has cleared the session promise: the
  invocation is announced and the handler is called, but nothing is sent back.
\<close>

theorem no_reply_after_disconnect:
  "functionCalls \<lparr>functionCalls = [exampleCall]\<rparr> = [exampleCall] \<and>
   sessionPromise (fst (disconnect connected)) = None \<and>
   handleMessage workingHandler exampleUtils \<lparr>currentTime = 0, createBufferSource = 1\<rparr>
     (fst (disconnect connected)) (toolMessage [exampleCall]) =
   (fst (disconnect connected),
    [OnLog JARVIS ''Executing protocol: X'' Info, OnSystemAction ''X'' (JObject [])], None) \<and>
   replies [OnLog JARVIS ''Executing protocol: X'' Info, OnSystemAction ''X'' (JObject [])] = []"
  by (simp add: disconnected_eq initial_def handleMessage_def handleToolCalls_def toolMessage_def
      dispatch_def workingHandler_def sendToolResponse_def playAudio_def base64Audio_def
      handleInterruption_def interruptedFlag_def exampleCall_def)

text \<open>
  C4, as amended. When the handler fails with a value other than \<^verbatim>\<open>null\<close> and
  \<^verbatim>\<open>undefined\<close>, the loop recovers: after announcing and calling the handler it writes the
  failure to the console and logs it with type \<^verbatim>\<open>error\<close>, whatever the state of the
  session. While the session promise is set and fulfilled it then sends the reply
  \<^verbatim>\<open>{id, name, response: {result: {error, status: "FAILED"}}}\<close>; when the session promise
  has been cleared the reply is skipped. The error text is the message of the value when
  it has a non-empty one, and \<^verbatim>\<open>Unknown tool failure\<close> otherwise.
\<close>

theorem tool_failure_is_logged_and_answered_while_session_is_set:
  assumes "onSystemAction cfg (call_name fc) (call_args fc) = Rejected err"
    and "errStr err = Inr m"
  shows "(sessionPromise s = Some (Fulfilled sess) \<longrightarrow>
            dispatch cfg s fc =
              ([OnLog JARVIS (''Executing protocol: '' @ call_name fc) Info,
                OnSystemAction (call_name fc) (call_args fc),
                ConsoleError (''Tool execution failed for '' @ call_name fc),
                OnLog SYSTEM (''CRITICAL: Tool Failure ('' @ call_name fc @ '') - '' @ m) Failure,
                SendToolResponse sess
                  \<lparr>resp_id = call_id fc, resp_name = call_name fc,
                   response = JObject [(''result'',
                     JObject [(''error'', JStr m), (''status'', JStr ''FAILED'')])]\<rparr>],
               None)) \<and>
         (sessionPromise s = None \<longrightarrow>
            dispatch cfg s fc =
              ([OnLog JARVIS (''Executing protocol: '' @ call_name fc) Info,
                OnSystemAction (call_name fc) (call_args fc),
                ConsoleError (''Tool execution failed for '' @ call_name fc),
                OnLog SYSTEM (''CRITICAL: Tool Failure ('' @ call_name fc @ '') - '' @ m) Failure],
               None)) \<and>
         (\<forall>msg. err = JsError msg \<or> err = JsValue (Some msg) \<longrightarrow>
            m = (if msg \<noteq> [] then msg else ''Unknown tool failure'')) \<and>
         (err = JsValue None \<longrightarrow> m = ''Unknown tool failure'')"
  using assms
  by (auto simp: dispatch_def sendToolResponse_def failurePayload_def errStr_def)

text \<open>The scenario of the specification: the handler rejects with the error \<^verbatim>\<open>boom\<close>.\<close>

theorem tool_failure_boom_scenario:
  "onSystemAction failingHandler (call_name exampleCall) (call_args exampleCall) =
     Rejected (JsError ''boom'') \<and>
   errStr (JsError ''boom'') = Inr ''boom'' \<and>
   sessionPromise connected = Some (Fulfilled 7) \<and>
   dispatch failingHandler connected exampleCall =
     ([OnLog JARVIS ''Executing protocol: X'' Info,
       OnSystemAction ''X'' (JObject []),
       ConsoleError ''Tool execution failed for X'',
       OnLog SYSTEM ''CRITICAL: Tool Failure (X) - boom'' Failure,
       SendToolResponse 7
         \<lparr>resp_id = ''1'', resp_name = ''X'',
          response = JObject [(''result'',
            JObject [(''error'', JStr ''boom''), (''status'', JStr ''FAILED'')])]\<rparr>],
      None)"
proof -
  have h1: "onSystemAction failingHandler (call_name exampleCall) (call_args exampleCall) =
              Rejected (JsError ''boom'')"
    by (simp add: failingHandler_def)
  have h2: "errStr (JsError ''boom'') = Inr ''boom''"
    by (simp add: errStr_def)
  have h3: "sessionPromise connected = Some (Fulfilled 7)"
    by (simp add: connected_eq)
  from tool_failure_is_logged_and_answered_while_session_is_set [OF h1 h2, of connected 7] h3
  have "dispatch failingHandler connected exampleCall =
     ([OnLog JARVIS (''Executing protocol: '' @ call_name exampleCall) Info,
       OnSystemAction (call_name exampleCall) (call_args exampleCall),
       ConsoleError (''Tool execution failed for '' @ call_name exampleCall),
       OnLog SYSTEM (''CRITICAL: Tool Failure ('' @ call_name exampleCall @ '') - '' @ ''boom'') Failure,
       SendToolResponse 7
         \<lparr>resp_id = call_id exampleCall, resp_name = call_name exampleCall,
          response = JObject [(''result'',
            JObject [(''error'', JStr ''boom''), (''status'', JStr ''FAILED'')])]\<rparr>],
      None)"
    by blast
  then show ?thesis using h1 h2 h3 by (simp add: exampleCall_def)
qed

text \<open>
  C4, as stated, fails once \<^verbatim>\<open>disconnect\<close> has cleared the session promise: the
  failure is logged, but no reply is sent.
\<close>

theorem failed_tool_call_is_not_answered_after_disconnect:
  "onSystemAction failingHandler (call_name exampleCall) (call_args exampleCall) =
     Rejected (JsError ''boom'') \<and>
   sessionPromise (fst (disconnect connected)) = None \<and>
   dispatch failingHandler (fst (disconnect connected)) exampleCall =
     ([OnLog JARVIS ''Executing protocol: X'' Info,
       OnSystemAction ''X'' (JObject []),
       ConsoleError ''Tool execution failed for X'',
       OnLog SYSTEM ''CRITICAL: Tool Failure (X) - boom'' Failure],
      None) \<and>
   replies (fst (dispatch failingHandler (fst (disconnect connected)) exampleCall)) = []"
  by (simp add: disconnected_eq initial_def dispatch_def failingHandler_def errStr_def
      sendToolResponse_def exampleCall_def)

text \<open>
  A handler that rejects with a value without a message, such as a bare string, is
  answered with the generic text.
\<close>

lemma string_rejection_gets_generic_text:
  "dispatch stringHandler connected exampleCall =
     ([OnLog JARVIS ''Executing protocol: X'' Info,
       OnSystemAction ''X'' (JObject []),
       ConsoleError ''Tool execution failed for X'',
       OnLog SYSTEM ''CRITICAL: Tool Failure (X) - Unknown tool failure'' Failure,
       SendToolResponse 7
         \<lparr>resp_id = ''1'', resp_name = ''X'',
          response = JObject [(''result'',
            JObject [(''error'', JStr ''Unknown tool failure''), (''status'', JStr ''FAILED'')])]\<rparr>],
      None)"
  by (simp add: dispatch_def stringHandler_def errStr_def sendToolResponse_def failurePayload_def
      connected_eq exampleCall_def)

subsection \<open>Muting\<close>

text \<open>
  C5. While the mute flag is set the capture handler returns before it does anything: a
  delivered frame produces no effect at all, so neither a loudness callback nor an
  outbound frame. \<^verbatim>\<open>setMute\<close> touches the flag only (the session and the processor stay
  as they are), and with the flag cleared the handler again reports the loudness of a
  frame above the noise floor and hands the encoded frame to the session.
\<close>

theorem mute_drops_capture_frames:
  assumes "isMuted s"
  shows "onaudioprocess u s frame = [] \<and> captureFrame u s frame = [] \<and>
         sessionPromise (setMute s False) = sessionPromise s \<and>
         processor (setMute s False) = processor s \<and>
         onaudioprocess u (setMute s False) next_frame =
           captureLevel next_frame @ sendFrame u s next_frame \<and>
         (next_frame \<noteq> [] \<and> captureRms next_frame > 0.01 \<longrightarrow>
            levels (onaudioprocess u (setMute s False) next_frame) =
              [Num (captureRms next_frame * 5)]) \<and>
         (sessionPromise s = Some (Fulfilled sess) \<longrightarrow>
            sentFrames (onaudioprocess u (setMute s False) next_frame) =
              [(sess, ''audio/pcm;rate=16000'',
                arrayBufferToBase64 u (float32ToPCM16 u next_frame))])"
  using assms
  by (auto simp: onaudioprocess_def captureFrame_def setMute_def captureLevel_def sendFrame_def
      split: option.splits promise.splits)

text \<open>Muted, a loud frame is dropped; unmuted, the same frame is reported and sent.\<close>

theorem mute_then_unmute_example:
  "isMuted (setMute connected True) \<and>
   captureFrame exampleUtils (setMute connected True) [1 / 2, 1 / 2] = [] \<and>
   onaudioprocess exampleUtils (setMute (setMute connected True) False) [1 / 2, 1 / 2] =
     [OnAudioData (Num (5 / 2)), SendRealtimeInput 7 ''audio/pcm;rate=16000'' ''AAAA'']"
proof -
  have m: "isMuted (setMute connected True)"
    by (simp add: setMute_def)
  have sp: "sessionPromise (setMute connected True) = Some (Fulfilled 7)"
    by (simp add: setMute_def connected_eq)
  have lv: "captureLevel [1 / 2, 1 / 2] = [OnAudioData (Num (5 / 2))]"
    by (simp add: captureLevel_def captureRms_half)
  have sf: "sendFrame exampleUtils (setMute connected True) [1 / 2, 1 / 2] =
              [SendRealtimeInput 7 ''audio/pcm;rate=16000'' ''AAAA'']"
    by (simp add: sendFrame_def sp exampleUtils_def numeral_2_eq_2)
  from mute_drops_capture_frames [OF m, of exampleUtils "[1 / 2, 1 / 2]" "[1 / 2, 1 / 2]" 7]
  show ?thesis using m lv sf by simp
qed

subsection \<open>A failing connect\<close>

text \<open>
  C6. The code at two failing inputs. When the capture device denies access,
  \<^verbatim>\<open>connect\<close> reports \<^verbatim>\<open>ERROR\<close>, one error message and one log entry, but both audio contexts,
  created before the device was asked for, stay open in their fields. When the promise
  of \<^verbatim>\<open>live.connect\<close> rejects, the catch block is never entered: the only status reported
  is \<^verbatim>\<open>CONNECTING\<close>, no error message is reported, and the contexts and the microphone
  stream stay open.
\<close>

theorem failed_connect_leaves_resources_open:
  "connect deniedEnv initial =
     (initial\<lparr>inputAudioContext := Some \<lparr>sampleRate = 16000, ctx_state = Running\<rparr>,
              outputAudioContext := Some \<lparr>sampleRate = 24000, ctx_state = Running\<rparr>\<rparr>,
      [OnStatusChange ''CONNECTING'', ConsoleError ''Connection failed:'',
       OnStatusChange ''ERROR'', OnError ''Permission denied'',
       OnLog SYSTEM ''Connection Aborted: Permission denied'' Failure]) \<and>
   \<not> released (fst (connect deniedEnv initial)) \<and>
   statusReports (snd (connect rejectedEnv initial)) = [''CONNECTING''] \<and>
   errorReports (snd (connect rejectedEnv initial)) = [] \<and>
   \<not> released (fst (connect rejectedEnv initial))"
proof -
  have "\<not> released (fst (connect deniedEnv initial))"
    unfolding denied_connect by (simp add: released_def contextReleased_def)
  moreover have "\<not> released (fst (connect rejectedEnv initial))"
    unfolding rejected_connect by (simp add: released_def)
  moreover have "statusReports (snd (connect rejectedEnv initial)) = [''CONNECTING''] \<and>
                 errorReports (snd (connect rejectedEnv initial)) = []"
    unfolding rejected_connect by simp
  ultimately show ?thesis using denied_connect by simp
qed

subsection \<open>Loudness\<close>

lemma pcmSquares_mono: "acc \<le> pcmSquares acc bytes"
proof (induction acc bytes rule: pcmSquares.induct)
  case (1 acc)
  then show ?case by simp
next
  case (2 acc lo)
  then show ?case by (simp add: Let_def)
next
  case (3 acc lo hi rest)
  define v where "v = real_of_int (uint lo OR push_bit 8 (uint hi)) / 32768"
  from "3.IH" [of v] have "acc + v * v \<le> pcmSquares (acc + v * v) rest"
    by (simp add: v_def)
  moreover have "acc \<le> acc + v * v" by simp
  moreover have "pcmSquares acc (lo # hi # rest) = pcmSquares (acc + v * v) rest"
    by (simp add: v_def Let_def)
  ultimately show ?case by linarith
qed

text \<open>The playback path clamps: what it reports is at most one (or not a number at all).\<close>

lemma playbackLevel_clamped:
  "playbackLevel bytes = NaN \<or> (\<exists>v. playbackLevel bytes = Num v \<and> 0 \<le> v \<and> v \<le> 1)"
proof (cases "bytes = []")
  case True
  then show ?thesis by (simp add: playbackLevel_def)
next
  case False
  have "0 \<le> pcmSquares 0 bytes" by (rule pcmSquares_mono)
  then have "0 \<le> sqrt (pcmSquares 0 bytes / (real (length bytes) / 2)) * 5"
    by simp
  with False show ?thesis by (simp add: playbackLevel_def)
qed

text \<open>
  C7. The code at a failing input: an unmuted frame of 4096 samples of value one half
  has loudness one half, and the capture path reports two and a half, above one.
\<close>

theorem capture_level_is_not_clamped:
  "levels (onaudioprocess u connected (replicate 4096 (1 / 2))) = [Num (5 / 2)]"
proof -
  have r: "captureRms (replicate 4096 (1 / 2)) = 1 / 2"
    using captureRms_replicate [of 4096 "1 / 2"] by simp
  have ne: "replicate 4096 (1 / 2 :: real) \<noteq> []"
    by (simp add: replicate_empty)
  have "captureLevel (replicate 4096 (1 / 2)) = [OnAudioData (Num (5 / 2))]"
    unfolding captureLevel_def using r ne by simp
  then show ?thesis
    by (simp add: onaudioprocess_def connected_eq levels_append levels_sendFrame)
qed

subsection \<open>disconnect\<close>

lemma andThen_fst: "fst (andThen f g s) = fst (g (fst (f s)))"
  by (simp add: andThen_def split: prod.splits)

lemma andThen_snd: "snd (andThen f g s) = snd (f s) @ snd (g (fst (f s)))"
  by (simp add: andThen_def split: prod.splits)

lemma releaseProcessor_fields:
  "processor (fst (releaseProcessor s)) = None \<and>
   statusReports (snd (releaseProcessor s)) = []"
  by (simp add: releaseProcessor_def split: option.splits)

lemma releaseSource_fields:
  "source (fst (releaseSource s)) = None \<and>
   processor (fst (releaseSource s)) = processor s \<and>
   statusReports (snd (releaseSource s)) = []"
  by (simp add: releaseSource_def split: option.splits)

lemma releaseStream_fields:
  "stream (fst (releaseStream s)) = None \<and>
   source (fst (releaseStream s)) = source s \<and>
   processor (fst (releaseStream s)) = processor s \<and>
   statusReports (snd (releaseStream s)) = []"
  by (simp add: releaseStream_def statusReports_map_TrackStop split: option.splits)

lemma closeInput_fields:
  "contextReleased (inputAudioContext (fst (closeInput s))) \<and>
   stream (fst (closeInput s)) = stream s \<and>
   source (fst (closeInput s)) = source s \<and>
   processor (fst (closeInput s)) = processor s \<and>
   statusReports (snd (closeInput s)) = []"
  by (simp add: closeInput_def contextReleased_def split: option.splits)

lemma closeOutput_fields:
  "contextReleased (outputAudioContext (fst (closeOutput s))) \<and>
   inputAudioContext (fst (closeOutput s)) = inputAudioContext s \<and>
   stream (fst (closeOutput s)) = stream s \<and>
   source (fst (closeOutput s)) = source s \<and>
   processor (fst (closeOutput s)) = processor s \<and>
   statusReports (snd (closeOutput s)) = []"
  by (simp add: closeOutput_def contextReleased_def split: option.splits)

lemma stopSources_fields:
  "activeSources (fst (stopSources s)) = [] \<and>
   outputAudioContext (fst (stopSources s)) = outputAudioContext s \<and>
   inputAudioContext (fst (stopSources s)) = inputAudioContext s \<and>
   stream (fst (stopSources s)) = stream s \<and>
   source (fst (stopSources s)) = source s \<and>
   processor (fst (stopSources s)) = processor s \<and>
   statusReports (snd (stopSources s)) = []"
  by (simp add: stopSources_def statusReports_map_SourceStop)

lemma closeSession_fields:
  "sessionPromise (fst (closeSession s)) = None \<and>
   activeSources (fst (closeSession s)) = activeSources s \<and>
   outputAudioContext (fst (closeSession s)) = outputAudioContext s \<and>
   inputAudioContext (fst (closeSession s)) = inputAudioContext s \<and>
   stream (fst (closeSession s)) = stream s \<and>
   source (fst (closeSession s)) = source s \<and>
   processor (fst (closeSession s)) = processor s \<and>
   statusReports (snd (closeSession s)) = []"
  by (simp add: closeSession_def split: option.splits promise.splits)

lemma disconnect_released: "released (fst (disconnect s))"
  by (simp add: released_def disconnect_def andThen_fst releaseProcessor_fields
      releaseSource_fields releaseStream_fields closeInput_fields closeOutput_fields
      stopSources_fields closeSession_fields)

lemma disconnect_reports_no_status: "statusReports (snd (disconnect s)) = []"
  by (simp add: disconnect_def andThen_snd statusReports_append releaseProcessor_fields
      releaseSource_fields releaseStream_fields closeInput_fields closeOutput_fields
      stopSources_fields closeSession_fields)

lemma released_disconnect:
  assumes "released s"
  shows "disconnect s = (s, [])"
proof -
  from assms have p: "releaseProcessor s = (s, [])"
    by (simp add: released_def releaseProcessor_def)
  from assms have so: "releaseSource s = (s, [])"
    by (simp add: released_def releaseSource_def)
  from assms have st: "releaseStream s = (s, [])"
    by (simp add: released_def releaseStream_def)
  from assms have ci: "closeInput s = (s, [])"
    by (auto simp: released_def contextReleased_def closeInput_def split: option.splits)
  from assms have co: "closeOutput s = (s, [])"
    by (auto simp: released_def contextReleased_def closeOutput_def split: option.splits)
  from assms have ss: "stopSources s = (s, [])"
    by (simp add: released_def stopSources_def)
  from assms have cs: "closeSession s = (s, [])"
    by (simp add: released_def closeSession_def)
  show ?thesis
    by (simp add: disconnect_def andThen_def p so st ci co ss cs)
qed

lemma stopped_map_TrackStop: "stopped (map TrackStop ts) = []"
  by (induction ts) simp_all

lemma releaseProcessor_effect:
  "snd (releaseProcessor s) = (case processor s of None \<Rightarrow> [] | Some n \<Rightarrow> [ProcessorDisconnect]) \<and>
   source (fst (releaseProcessor s)) = source s \<and>
   stream (fst (releaseProcessor s)) = stream s \<and>
   inputAudioContext (fst (releaseProcessor s)) = inputAudioContext s \<and>
   outputAudioContext (fst (releaseProcessor s)) = outputAudioContext s \<and>
   activeSources (fst (releaseProcessor s)) = activeSources s \<and>
   sessionPromise (fst (releaseProcessor s)) = sessionPromise s"
  by (simp add: releaseProcessor_def split: option.splits)

lemma releaseSource_effect:
  "snd (releaseSource s) = (case source s of None \<Rightarrow> [] | Some n \<Rightarrow> [SourceDisconnect]) \<and>
   stream (fst (releaseSource s)) = stream s \<and>
   inputAudioContext (fst (releaseSource s)) = inputAudioContext s \<and>
   outputAudioContext (fst (releaseSource s)) = outputAudioContext s \<and>
   activeSources (fst (releaseSource s)) = activeSources s \<and>
   sessionPromise (fst (releaseSource s)) = sessionPromise s"
  by (simp add: releaseSource_def split: option.splits)

lemma releaseStream_effect:
  "snd (releaseStream s) = (case stream s of None \<Rightarrow> [] | Some st \<Rightarrow> map TrackStop st) \<and>
   inputAudioContext (fst (releaseStream s)) = inputAudioContext s \<and>
   outputAudioContext (fst (releaseStream s)) = outputAudioContext s \<and>
   activeSources (fst (releaseStream s)) = activeSources s \<and>
   sessionPromise (fst (releaseStream s)) = sessionPromise s"
  by (simp add: releaseStream_def split: option.splits)

lemma closeInput_effect:
  "snd (closeInput s) =
     (case inputAudioContext s of
        None \<Rightarrow> []
      | Some ctx \<Rightarrow> if ctx_state ctx = Closed then [] else [ContextClose (sampleRate ctx)]) \<and>
   outputAudioContext (fst (closeInput s)) = outputAudioContext s \<and>
   activeSources (fst (closeInput s)) = activeSources s \<and>
   sessionPromise (fst (closeInput s)) = sessionPromise s"
  by (simp add: closeInput_def split: option.splits)

lemma closeOutput_effect:
  "snd (closeOutput s) =
     (case outputAudioContext s of
        None \<Rightarrow> []
      | Some ctx \<Rightarrow> if ctx_state ctx = Closed then [] else [ContextClose (sampleRate ctx)]) \<and>
   activeSources (fst (closeOutput s)) = activeSources s \<and>
   sessionPromise (fst (closeOutput s)) = sessionPromise s"
  by (simp add: closeOutput_def split: option.splits)

lemma stopSources_effect:
  "snd (stopSources s) = map SourceStop (activeSources s) \<and>
   sessionPromise (fst (stopSources s)) = sessionPromise s"
  by (simp add: stopSources_def)

lemma closeSession_effect:
  "snd (closeSession s) =
     (case sessionPromise s of
        None \<Rightarrow> []
      | Some (Fulfilled sess) \<Rightarrow> [SessionClose sess]
      | Some (Rejected e) \<Rightarrow> [ConsoleDebug ''Session close error''])"
  by (simp add: closeSession_def split: option.splits promise.splits)

lemma disconnect_effects:
  "snd (disconnect s) =
     (case processor s of None \<Rightarrow> [] | Some n \<Rightarrow> [ProcessorDisconnect]) @
     (case source s of None \<Rightarrow> [] | Some n \<Rightarrow> [SourceDisconnect]) @
     (case stream s of None \<Rightarrow> [] | Some st \<Rightarrow> map TrackStop st) @
     (case inputAudioContext s of
        None \<Rightarrow> []
      | Some ctx \<Rightarrow> if ctx_state ctx = Closed then [] else [ContextClose (sampleRate ctx)]) @
     (case outputAudioContext s of
        None \<Rightarrow> []
      | Some ctx \<Rightarrow> if ctx_state ctx = Closed then [] else [ContextClose (sampleRate ctx)]) @
     map SourceStop (activeSources s) @
     (case sessionPromise s of
        None \<Rightarrow> []
      | Some (Fulfilled sess) \<Rightarrow> [SessionClose sess]
      | Some (Rejected e) \<Rightarrow> [ConsoleDebug ''Session close error''])"
  by (simp only: disconnect_def andThen_snd andThen_fst releaseProcessor_effect
      releaseSource_effect releaseStream_effect closeInput_effect closeOutput_effect
      stopSources_effect closeSession_effect)

lemma disconnect_state:
  "fst (disconnect s) =
     s\<lparr>processor := None, source := None, stream := None,
       inputAudioContext :=
         (case inputAudioContext s of
            None \<Rightarrow> None
          | Some ctx \<Rightarrow> if ctx_state ctx = Closed then Some ctx else None),
       outputAudioContext :=
         (case outputAudioContext s of
            None \<Rightarrow> None
          | Some ctx \<Rightarrow> if ctx_state ctx = Closed then Some ctx else None),
       activeSources := [], sessionPromise := None\<rparr>"
  by (simp add: disconnect_def andThen_def releaseProcessor_def releaseSource_def
      releaseStream_def closeInput_def closeOutput_def stopSources_def closeSession_def
      split: option.splits promise.splits)

text \<open>
  C8, as amended. From every state \<^verbatim>\<open>disconnect\<close> makes exactly these calls, in this
  order: it disconnects the processor and the source node if present, stops every track
  of the stream, closes each audio context that is not closed already, stops every
  active source, and closes the session of a fulfilled promise (a rejected promise is
  only noted on the console). It ends with the processor, the source node and the stream
  released, both audio contexts closed, no active source and the session promise cleared;
  the cursor and the mute flag are not touched. A second call changes nothing and has no
  effect, and so does a call before any \<^verbatim>\<open>connect\<close>. The method itself reports no status.
\<close>

theorem disconnect_releases_everything_and_is_idempotent:
  "snd (disconnect s) =
     (case processor s of None \<Rightarrow> [] | Some n \<Rightarrow> [ProcessorDisconnect]) @
     (case source s of None \<Rightarrow> [] | Some n \<Rightarrow> [SourceDisconnect]) @
     (case stream s of None \<Rightarrow> [] | Some st \<Rightarrow> map TrackStop st) @
     (case inputAudioContext s of
        None \<Rightarrow> []
      | Some ctx \<Rightarrow> if ctx_state ctx = Closed then [] else [ContextClose (sampleRate ctx)]) @
     (case outputAudioContext s of
        None \<Rightarrow> []
      | Some ctx \<Rightarrow> if ctx_state ctx = Closed then [] else [ContextClose (sampleRate ctx)]) @
     map SourceStop (activeSources s) @
     (case sessionPromise s of
        None \<Rightarrow> []
      | Some (Fulfilled sess) \<Rightarrow> [SessionClose sess]
      | Some (Rejected e) \<Rightarrow> [ConsoleDebug ''Session close error'']) \<and>
   stopped (snd (disconnect s)) = activeSources s \<and>
   fst (disconnect s) =
     s\<lparr>processor := None, source := None, stream := None,
       inputAudioContext :=
         (case inputAudioContext s of
            None \<Rightarrow> None
          | Some ctx \<Rightarrow> if ctx_state ctx = Closed then Some ctx else None),
       outputAudioContext :=
         (case outputAudioContext s of
            None \<Rightarrow> None
          | Some ctx \<Rightarrow> if ctx_state ctx = Closed then Some ctx else None),
       activeSources := [], sessionPromise := None\<rparr> \<and>
   released (fst (disconnect s)) \<and>
   disconnect (fst (disconnect s)) = (fst (disconnect s), []) \<and>
   statusReports (snd (disconnect s)) = [] \<and>
   disconnect initial = (initial, [])"
proof -
  have "released initial"
    by (simp add: released_def initial_def contextReleased_def)
  moreover have "stopped (snd (disconnect s)) = activeSources s"
    unfolding disconnect_effects
    by (simp add: stopped_append stopped_map_SourceStop stopped_map_TrackStop
        split: option.splits promise.splits)
  ultimately show ?thesis
    using disconnect_effects [of s] disconnect_state [of s] disconnect_released [of s]
      disconnect_reports_no_status [of s]
      released_disconnect [of "fst (disconnect s)"] released_disconnect [of initial]
    by simp
qed

text \<open>Disconnecting the connected client, and disconnecting again.\<close>

theorem disconnect_example:
  "disconnect connected =
     (initial, [ProcessorDisconnect, SourceDisconnect, TrackStop 0, ContextClose 16000,
                ContextClose 24000, SessionClose 7]) \<and>
   released initial \<and> disconnect initial = (initial, [])"
proof -
  have d: "disconnect connected =
     (initial, [ProcessorDisconnect, SourceDisconnect, TrackStop 0, ContextClose 16000,
                ContextClose 24000, SessionClose 7])"
    by (simp add: connected_eq initial_def disconnect_def andThen_def releaseProcessor_def
      releaseSource_def releaseStream_def closeInput_def closeOutput_def stopSources_def
      closeSession_def)
  from disconnect_releases_everything_and_is_idempotent [of connected] d
  show ?thesis by simp
qed

text \<open>
  C8, as stated, fails after a connect that the capture device refused: the last status
  reported is \<^verbatim>\<open>ERROR\<close>, and \<^verbatim>\<open>disconnect\<close> reports none.
\<close>

theorem status_stays_error_after_failed_connect:
  "statusReports (snd (disconnect (fst (connect deniedEnv initial)))) = [] \<and>
   lastStatus ''DISCONNECTED''
     (snd (connect deniedEnv initial) @ snd (disconnect (fst (connect deniedEnv initial)))) =
   ''ERROR''"
  unfolding disconnect_after_denied_connect
  unfolding denied_connect
  by (simp add: lastStatus_def)

subsection \<open>Remote close\<close>

text \<open>
  C9. The close callback only reports the status \<^verbatim>\<open>DISCONNECTED\<close> and writes one log
  entry; the object is returned as it was, so nothing is released. A frame captured
  afterwards is handled exactly as before the close: with a processor installed, the
  flag clear and a fulfilled session promise its loudness is reported and the encoded
  frame is handed to the session. Only \<^verbatim>\<open>disconnect\<close> ends the delivery of frames.
\<close>

theorem remote_close_releases_nothing:
  "handleClose s = (s, [OnStatusChange ''DISCONNECTED'',
                        OnLog SYSTEM ''J.A.R.V.I.S. Protocol Offline'' Warning]) \<and>
   captureFrame u (fst (handleClose s)) frame = captureFrame u s frame \<and>
   (processor s = Some n \<and> \<not> isMuted s \<and> sessionPromise s = Some (Fulfilled sess) \<longrightarrow>
      captureFrame u (fst (handleClose s)) frame =
        captureLevel frame @
        [SendRealtimeInput sess ''audio/pcm;rate=16000''
           (arrayBufferToBase64 u (float32ToPCM16 u frame))]) \<and>
   captureFrame u (fst (disconnect (fst (handleClose s)))) frame = []"
  by (auto simp: handleClose_def captureFrame_def onaudioprocess_def sendFrame_def
      disconnect_def andThen_def releaseProcessor_def releaseSource_def releaseStream_def
      closeInput_def closeOutput_def stopSources_def closeSession_def
      split: option.splits promise.splits if_splits)

text \<open>After a remote close a loud frame is still reported and sent.\<close>

theorem remote_close_example:
  "processor connected = Some 4096 \<and> \<not> isMuted connected \<and>
   sessionPromise connected = Some (Fulfilled 7) \<and>
   captureFrame exampleUtils (fst (handleClose connected)) [1 / 2, 1 / 2] =
     [OnAudioData (Num (5 / 2)), SendRealtimeInput 7 ''audio/pcm;rate=16000'' ''AAAA'']"
proof -
  have c: "processor connected = Some 4096 \<and> \<not> isMuted connected \<and>
           sessionPromise connected = Some (Fulfilled 7)"
    by (simp add: connected_eq)
  have lv: "captureLevel [1 / 2, 1 / 2] = [OnAudioData (Num (5 / 2))]"
    by (simp add: captureLevel_def captureRms_half)
  have enc: "arrayBufferToBase64 exampleUtils (float32ToPCM16 exampleUtils [1 / 2, 1 / 2]) = ''AAAA''"
    by (simp add: exampleUtils_def numeral_2_eq_2)
  from remote_close_releases_nothing [of connected exampleUtils "[1 / 2, 1 / 2]" 4096 7] c
  have "captureFrame exampleUtils (fst (handleClose connected)) [1 / 2, 1 / 2] =
          captureLevel [1 / 2, 1 / 2] @
          [SendRealtimeInput 7 ''audio/pcm;rate=16000''
             (arrayBufferToBase64 exampleUtils (float32ToPCM16 exampleUtils [1 / 2, 1 / 2]))]"
    by blast
  then show ?thesis using c lv enc by simp
qed

subsection \<open>Only the first part of a model turn carries audio\<close>

text \<open>
  C10. The audio of a message is read from \<^verbatim>\<open>parts[0]\<close> alone. When the first part has
  no inline data, whatever the later parts hold, the audio step does nothing: no source
  is started, no loudness is reported, and the cursor and the set of active sources
  change only if the same message carries the interruption flag.
\<close>

theorem only_first_part_is_examined:
  assumes "serverContent m = Some sc" and "modelTurn sc = Some mt"
    and "parts mt = p # later"
    and "(case inlineData p of None \<Rightarrow> None | Some b \<Rightarrow> data b) = None"
    and "handleMessage cfg u env s m = (s', evs, r)"
  shows "base64Audio m = None \<and> playAudio u env s m = (s, []) \<and>
         scheduled evs = [] \<and> levels evs = [] \<and>
         nextStartTime s' = (if r = None \<and> interruptedFlag m then 0 else nextStartTime s) \<and>
         activeSources s' = (if r = None \<and> interruptedFlag m then [] else activeSources s)"
proof -
  have b: "base64Audio m = None"
    using assms(1-4) by (simp add: base64Audio_def)
  then have pa: "playAudio u env s m = (s, [])"
    by (simp add: playAudio_def)
  obtain evs1 r1 where tc: "handleToolCalls cfg s m = (evs1, r1)"
    by (cases "handleToolCalls cfg s m")
  from handleToolCalls_quiet [of cfg s m] tc
  have q1: "scheduled evs1 = [] \<and> levels evs1 = []" by simp
  obtain s3 evs3 where hi: "handleInterruption s m = (s3, evs3)"
    by (cases "handleInterruption s m")
  from handleInterruption_quiet [of s m] hi
  have q3: "scheduled evs3 = [] \<and> levels evs3 = []" by simp
  show ?thesis
  proof (cases r1)
    case None
    with assms(5) tc pa hi have "s' = s3" "evs = evs1 @ evs3" "r = None"
      by (simp_all add: handleMessage_def)
    with b pa q1 q3 hi show ?thesis
      by (auto simp: scheduled_append levels_append handleInterruption_def split: if_splits)
  next
    case (Some te)
    with assms(5) tc have "s' = s" "evs = evs1" "r = Some te"
      by (simp_all add: handleMessage_def)
    with b pa q1 show ?thesis by simp
  qed
qed

text \<open>A message whose audio sits in the second part.\<close>

theorem audio_in_second_part_example:
  "playAudio exampleUtils \<lparr>currentTime = 2, createBufferSource = 1\<rparr>
     connected (laterPartMessage ''abcde'') = (connected, []) \<and>
   handleMessage workingHandler exampleUtils \<lparr>currentTime = 2, createBufferSource = 1\<rparr>
     connected (laterPartMessage ''abcde'') = (connected, [], None)"
proof -
  let ?m = "laterPartMessage ''abcde''"
  let ?first = "\<lparr> inlineData = None \<rparr>"
  let ?later = "[\<lparr> inlineData = Some \<lparr> data = Some ''abcde'' \<rparr> \<rparr>]"
  let ?mt = "\<lparr> parts = ?first # ?later \<rparr>"
  let ?sc = "\<lparr> modelTurn = Some ?mt, interrupted = None \<rparr>"
  let ?env = "\<lparr>currentTime = 2, createBufferSource = 1\<rparr>"
  have a1: "serverContent ?m = Some ?sc"
    by (simp add: laterPartMessage_def)
  have a2: "modelTurn ?sc = Some ?mt"
    by simp
  have a3: "parts ?mt = ?first # ?later"
    by simp
  have a4: "(case inlineData ?first of None \<Rightarrow> None | Some b \<Rightarrow> data b) = None"
    by simp
  have h: "handleMessage workingHandler exampleUtils ?env connected ?m = (connected, [], None)"
    by (simp add: handleMessage_def handleToolCalls_def playAudio_def base64Audio_def
        handleInterruption_def interruptedFlag_def laterPartMessage_def)
  from only_first_part_is_examined [OF a1 a2 a3 a4 h] h
  show ?thesis by simp
qed

end
